theory Spec2Isabelle
  imports Main "HOL-Library.Word"
begin

section \<open>The node agent of xpanel: data model\<close>

text \<open>
  The agent (\<^verbatim>\<open>xpanel-agent/internal/agent\<close>) keeps two Go maps, \<^verbatim>\<open>currentUsers\<close> and
  \<^verbatim>\<open>activityCache\<close>, both keyed by the user's email. They are modelled as partial
  functions. Go errors are values of the type \<open>error\<close>; a Go \<^verbatim>\<open>int64\<close> is a
  \<open>64 word\<close> read as two's complement, a \<^verbatim>\<open>uint\<close> that is only copied is a \<open>nat\<close>, a Go
  \<^verbatim>\<open>int\<close> that is only copied and compared is an \<open>int\<close>.
\<close>

datatype error = Error string | Wrapped string error

type_synonym int64 = "64 word"

text \<open>\<^verbatim>\<open>models.UserConfig\<close>, \<^verbatim>\<open>models.XrayUser\<close>, \<^verbatim>\<open>models.XrayStats\<close>.\<close>

record UserConfig =
  UserID :: nat
  Email :: string
  UUID :: string
  Status :: string
  DataLimit :: int64
  DataUsed :: int64

record XrayUser =
  xu_Email :: string
  xu_UUID :: string
  Level :: int
  xu_Protocol :: string
  Flow :: string

record XrayStats =
  UploadBytes :: int64
  DownloadBytes :: int64

text \<open>
  A \<^verbatim>\<open>time.Time\<close> is the number of nanoseconds since Go's zero time, so that
  \<^verbatim>\<open>IsZero\<close> is equality with 0. A \<^verbatim>\<open>time.Duration\<close> is an \<^verbatim>\<open>int64\<close> count of
  nanoseconds; \<^verbatim>\<open>Time.Sub\<close> saturates at the ends of that range.
\<close>

type_synonym Time = int
type_synonym Duration = int

definition IsZero :: "Time \<Rightarrow> bool" where
  "IsZero t = (t = 0)"

definition maxDuration :: Duration where
  "maxDuration = 2 ^ 63 - 1"

definition minDuration :: Duration where
  "minDuration = - (2 ^ 63)"

definition Sub :: "Time \<Rightarrow> Time \<Rightarrow> Duration" where
  "Sub t u = (if t - u > maxDuration then maxDuration
              else if t - u < minDuration then minDuration else t - u)"

definition Second :: Duration where
  "Second = 1000000000"

definition Minute :: Duration where
  "Minute = 60 * Second"

text \<open>\<^verbatim>\<open>UserActivityState\<close> of activity.go and \<^verbatim>\<open>RealityKeys\<close> of reality.go.\<close>

record UserActivityState =
  as_Email :: string
  LastSeen :: Time
  LastUplink :: int64
  LastDownlink :: int64
  IsActive :: bool

record RealityKeys =
  PrivateKey :: string
  PublicKey :: string

text \<open>\<^verbatim>\<open>config.XrayConfig\<close>: the fields the agent reads or writes.\<close>

record XrayConfig =
  APIAddress :: string
  APIPort :: int
  Protocol :: string
  ListenAddress :: string
  ListenPort :: int
  TLSEnabled :: bool
  CertFile :: string
  KeyFile :: string
  SNI :: string
  InboundTag :: string
  GeoIPPath :: string
  GeoSitePath :: string
  ConfigPath :: string
  RealityEnabled :: bool
  RealityDest :: string
  RealityServerNames :: string
  RealityPrivateKey :: string
  RealityPublicKey :: string
  RealityShortIds :: string
  RealityKeyPath :: string

text \<open>
  The \<^verbatim>\<open>Agent\<close> struct: its configuration (\<^verbatim>\<open>cfg.Node.ID\<close>, \<^verbatim>\<open>cfg.Xray\<close>), the two
  maps and the keypair. The clients, the logger, the mutex and the context carry no
  data of their own; what the clients answer is given to each operation as its
  environment.
\<close>

record Agent =
  cfg_Node_ID :: nat
  cfg_Xray :: XrayConfig
  currentUsers :: "string \<rightharpoonup> UserConfig"
  activityCache :: "string \<rightharpoonup> UserActivityState"
  realityKeys :: "RealityKeys option"

text \<open>
  A Go \<^verbatim>\<open>range\<close> over a map visits every key once, in an order the runtime chooses.
  Each loop over a map takes that order as a list; \<open>range_order m ks\<close> says that \<open>ks\<close>
  is such an order for \<open>m\<close>.
\<close>

definition range_order :: "('k \<rightharpoonup> 'v) \<Rightarrow> 'k list \<Rightarrow> bool" where
  "range_order m ks = (distinct ks \<and> set ks = dom m)"

section \<open>Reconciliation: sync.go\<close>

text \<open>
  The calls \<^verbatim>\<open>syncUsers\<close> makes to the proxy engine, each with the error it returned
  (\<open>None\<close> for \<^verbatim>\<open>nil\<close>).
\<close>

datatype XrayCall =
  AddUserCall XrayUser "error option"
  | RemoveUserCall string "error option"

fun call_ok :: "XrayCall \<Rightarrow> bool" where
  "call_ok (AddUserCall u r) = (r = None)"
| "call_ok (RemoveUserCall e r) = (r = None)"

text \<open>
  The environment of one pass: what \<^verbatim>\<open>FetchUserSync\<close> returns, what the engine answers
  to \<^verbatim>\<open>AddUser\<close> and \<^verbatim>\<open>RemoveUser\<close> (a pass calls each at most once for an email, so
  the answers of a pass are a function of the argument), and the orders of the two
  \<^verbatim>\<open>range\<close> loops.
\<close>

record SyncEnv =
  FetchUserSync :: "error + UserConfig list"
  AddUser :: "XrayUser \<Rightarrow> error option"
  RemoveUser :: "string \<Rightarrow> error option"
  rangePanelUsers :: "string list"
  rangeCurrentUsers :: "string list"

text \<open>\<^verbatim>\<open>for i := range users { panelUsers[users[i].Email] = &users[i] }\<close>\<close>

fun buildPanelUsers :: "UserConfig list \<Rightarrow> (string \<rightharpoonup> UserConfig) \<Rightarrow> (string \<rightharpoonup> UserConfig)" where
  "buildPanelUsers [] m = m"
| "buildPanelUsers (u # us) m = buildPanelUsers us (m(Email u \<mapsto> u))"

definition newXrayUser :: "XrayConfig \<Rightarrow> UserConfig \<Rightarrow> XrayUser" where
  "newXrayUser xc user =
     \<lparr>xu_Email = Email user, xu_UUID = UUID user, Level = 0, xu_Protocol = Protocol xc,
      Flow = (if RealityEnabled xc then ''xtls-rprx-vision'' else '''')\<rparr>"

text \<open>
  The first loop: \<^verbatim>\<open>for email, user := range panelUsers\<close>. The state is
  \<^verbatim>\<open>currentUsers\<close>, the engine calls so far and the counter \<^verbatim>\<open>added\<close>. The loop
  takes the order of the keys; an element of the order that is no key of
  \<^verbatim>\<open>panelUsers\<close> has no iteration (an order of the map has no such element).
\<close>

fun addUsers ::
  "XrayConfig \<Rightarrow> (XrayUser \<Rightarrow> error option) \<Rightarrow> (string \<rightharpoonup> UserConfig) \<Rightarrow> string list \<Rightarrow>
   (string \<rightharpoonup> UserConfig) \<times> XrayCall list \<times> nat \<Rightarrow>
   (string \<rightharpoonup> UserConfig) \<times> XrayCall list \<times> nat" where
  "addUsers xc add panelUsers [] st = st"
| "addUsers xc add panelUsers (email # ks) (cur, calls, added) =
     (case panelUsers email of
        None \<Rightarrow> addUsers xc add panelUsers ks (cur, calls, added)
      | Some user \<Rightarrow>
          (if cur email = None then
             (let xrayUser = newXrayUser xc user in
              case add xrayUser of
                Some err \<Rightarrow>
                  addUsers xc add panelUsers ks (cur, calls @ [AddUserCall xrayUser (Some err)], added)
              | None \<Rightarrow>
                  addUsers xc add panelUsers ks
                    (cur(email \<mapsto> user), calls @ [AddUserCall xrayUser None], added + 1))
           else addUsers xc add panelUsers ks (cur, calls, added)))"

text \<open>
  The second loop: \<^verbatim>\<open>for email := range a.currentUsers\<close>, deleting the visited key
  when the engine has removed the user.
\<close>

fun removeUsers ::
  "(string \<Rightarrow> error option) \<Rightarrow> (string \<rightharpoonup> UserConfig) \<Rightarrow> string list \<Rightarrow>
   (string \<rightharpoonup> UserConfig) \<times> XrayCall list \<times> nat \<Rightarrow>
   (string \<rightharpoonup> UserConfig) \<times> XrayCall list \<times> nat" where
  "removeUsers rm panelUsers [] st = st"
| "removeUsers rm panelUsers (email # ks) (cur, calls, removed) =
     (if panelUsers email = None then
        (case rm email of
           Some err \<Rightarrow>
             removeUsers rm panelUsers ks (cur, calls @ [RemoveUserCall email (Some err)], removed)
         | None \<Rightarrow>
             removeUsers rm panelUsers ks
               (cur(email := None), calls @ [RemoveUserCall email None], removed + 1))
      else removeUsers rm panelUsers ks (cur, calls, removed))"

text \<open>
  \<^verbatim>\<open>syncUsers\<close> returns its error, the agent after the pass and the engine calls of
  the pass.
\<close>

definition syncUsers :: "SyncEnv \<Rightarrow> Agent \<Rightarrow> error option \<times> Agent \<times> XrayCall list" where
  "syncUsers env a =
     (case FetchUserSync env of
        Inl err \<Rightarrow> (Some err, a, [])
      | Inr users \<Rightarrow>
          (let panelUsers = buildPanelUsers users Map.empty;
               st1 = addUsers (cfg_Xray a) (AddUser env) panelUsers (rangePanelUsers env)
                       (currentUsers a, [], 0);
               st2 = removeUsers (RemoveUser env) panelUsers (rangeCurrentUsers env)
                       (fst st1, fst (snd st1), 0)
           in (None, a\<lparr>currentUsers := fst st2\<rparr>, fst (snd st2))))"

text \<open>
  The orders of the two loops of a pass are orders of the maps they range over:
  the fetched users, and \<^verbatim>\<open>currentUsers\<close> as the first loop left it.
\<close>

definition sync_ranges :: "SyncEnv \<Rightarrow> Agent \<Rightarrow> bool" where
  "sync_ranges env a =
     (case FetchUserSync env of
        Inl err \<Rightarrow> True
      | Inr users \<Rightarrow>
          range_order (buildPanelUsers users Map.empty) (rangePanelUsers env) \<and>
          range_order
            (fst (addUsers (cfg_Xray a) (AddUser env) (buildPanelUsers users Map.empty)
                    (rangePanelUsers env) (currentUsers a, [], 0)))
            (rangeCurrentUsers env))"

section \<open>Activity tracking: activity.go\<close>

text \<open>\<^verbatim>\<open>models.UserActivityReport\<close> and \<^verbatim>\<open>models.ActivityReportRequest\<close>.\<close>

record UserActivityReport =
  ar_Email :: string
  ar_LastSeen :: Time
  IsOnline :: bool
  DeviceCount :: nat
  DeviceIPs :: "string list"

record ActivityReportRequest =
  ar_NodeID :: nat
  Users :: "UserActivityReport list"
  ar_Timestamp :: Time

text \<open>\<^verbatim>\<open>models.UserTrafficReport\<close> and \<^verbatim>\<open>models.TrafficReportRequest\<close>.\<close>

record UserTrafficReport =
  UserEmail :: string
  tr_UploadBytes :: int64
  tr_DownloadBytes :: int64

record TrafficReportRequest =
  tr_NodeID :: nat
  Traffic :: "UserTrafficReport list"
  tr_Timestamp :: Time

text \<open>
  The environment of one tick of the activity loop or of the traffic loop: the
  engine's answers to \<^verbatim>\<open>GetUserStats\<close>, \<^verbatim>\<open>ResetUserStats\<close> and \<^verbatim>\<open>GetOnlineIPs\<close> (a tick
  asks at most once for an email; the answer of \<^verbatim>\<open>GetOnlineIPs\<close> is the key list of
  the returned map in the order the tick ranges over it), the panel's answers, the
  clock (\<open>timeNow\<close> is the \<^verbatim>\<open>time.Now()\<close> of \<^verbatim>\<open>trackActivity\<close>, \<open>clockAt email\<close> the
  clock read by \<^verbatim>\<open>time.Since\<close> for the cache entry of that key, \<open>timeStamp\<close> the
  timestamp of the request) and the orders of the \<^verbatim>\<open>range\<close> loops.
\<close>

record TickEnv =
  GetUserStats :: "string \<Rightarrow> error + XrayStats"
  ResetUserStats :: "string \<Rightarrow> error option"
  GetOnlineIPs :: "string \<Rightarrow> error + string list"
  ReportTraffic :: "TrafficReportRequest \<Rightarrow> error option"
  ReportActivity :: "ActivityReportRequest \<Rightarrow> error option"
  timeNow :: Time
  clockAt :: "string \<Rightarrow> Time"
  timeStamp :: Time
  rangeUsers :: "string list"
  rangeCache :: "string list"

text \<open>
  The body of the loop of \<^verbatim>\<open>trackActivity\<close> after a successful \<^verbatim>\<open>GetUserStats\<close>: the
  cache entry of the user as the iteration leaves it. The two deltas are
  \<^verbatim>\<open>int64\<close> subtractions, compared with 0 as signed numbers.
\<close>

definition observe :: "Time \<Rightarrow> string \<Rightarrow> XrayStats \<Rightarrow> UserActivityState option \<Rightarrow> UserActivityState" where
  "observe now email stats cached =
     (let currentUplink = UploadBytes stats;
          currentDownlink = DownloadBytes stats;
          state = (case cached of
                     Some st \<Rightarrow> st
                   | None \<Rightarrow> \<lparr>as_Email = email, LastSeen = 0, LastUplink = currentUplink,
                              LastDownlink = currentDownlink, IsActive = False\<rparr>);
          uplinkDelta = currentUplink - LastUplink state;
          downlinkDelta = currentDownlink - LastDownlink state;
          state1 = (if 0 <s uplinkDelta \<or> 0 <s downlinkDelta
                    then state\<lparr>IsActive := True, LastSeen := now\<rparr>
                    else state\<lparr>IsActive := False\<rparr>)
      in state1\<lparr>LastUplink := currentUplink, LastDownlink := currentDownlink\<rparr>)"

text \<open>
  The loop \<^verbatim>\<open>for email := range a.currentUsers\<close> of \<^verbatim>\<open>trackActivity\<close>; the state is the
  map \<^verbatim>\<open>activeUsers\<close> and the activity cache. Both maps hold pointers to the same
  state, so \<^verbatim>\<open>activeUsers\<close> sees the counters stored after the entry was put in it.
\<close>

fun trackLoop ::
  "TickEnv \<Rightarrow> string list \<Rightarrow>
   (string \<rightharpoonup> UserActivityState) \<times> (string \<rightharpoonup> UserActivityState) \<Rightarrow>
   (string \<rightharpoonup> UserActivityState) \<times> (string \<rightharpoonup> UserActivityState)" where
  "trackLoop env [] st = st"
| "trackLoop env (email # ks) (activeUsers, cache) =
     (case GetUserStats env email of
        Inl err \<Rightarrow> trackLoop env ks (activeUsers, cache)
      | Inr stats \<Rightarrow>
          (let state = observe (timeNow env) email stats (cache email)
           in trackLoop env ks
                (if IsActive state then activeUsers(email \<mapsto> state) else activeUsers,
                 cache(email \<mapsto> state))))"

definition trackActivity :: "TickEnv \<Rightarrow> Agent \<Rightarrow> (string \<rightharpoonup> UserActivityState) \<times> Agent" where
  "trackActivity env a =
     (if dom (currentUsers a) = {} then (Map.empty, a)
      else (let st = trackLoop env (rangeUsers env) (Map.empty, activityCache a)
            in (fst st, a\<lparr>activityCache := snd st\<rparr>)))"

text \<open>
  The report entry \<^verbatim>\<open>reportActivity\<close> builds for one cache entry (\<open>None\<close> when the
  entry has never been seen); \<open>key\<close> is the key of the entry in the cache.
\<close>

definition activityEntry :: "TickEnv \<Rightarrow> string \<Rightarrow> UserActivityState \<Rightarrow> UserActivityReport option" where
  "activityEntry env key state =
     (if \<not> IsZero (LastSeen state) then
        (let report = \<lparr>ar_Email = as_Email state, ar_LastSeen = LastSeen state,
                       IsOnline = (IsActive state \<or> Sub (clockAt env key) (LastSeen state) < 2 * Minute),
                       DeviceCount = 0, DeviceIPs = []\<rparr>
         in if IsOnline report then
              (case GetOnlineIPs env (as_Email state) of
                 Inl err \<Rightarrow> Some report
               | Inr ips \<Rightarrow>
                   if length ips > 0
                   then Some (report\<lparr>DeviceIPs := ips, DeviceCount := length ips\<rparr>)
                   else Some report)
            else Some report)
      else None)"

fun buildActivities ::
  "TickEnv \<Rightarrow> (string \<rightharpoonup> UserActivityState) \<Rightarrow> string list \<Rightarrow> UserActivityReport list \<Rightarrow>
   UserActivityReport list" where
  "buildActivities env cache [] activities = activities"
| "buildActivities env cache (key # ks) activities =
     (case cache key of
        None \<Rightarrow> buildActivities env cache ks activities
      | Some state \<Rightarrow>
          (case activityEntry env key state of
             None \<Rightarrow> buildActivities env cache ks activities
           | Some report \<Rightarrow> buildActivities env cache ks (activities @ [report])))"

text \<open>
  \<^verbatim>\<open>reportActivity\<close> returns its error, the agent after the tick and the requests
  it sent to the panel.
\<close>

definition reportActivity ::
  "TickEnv \<Rightarrow> Agent \<Rightarrow> error option \<times> Agent \<times> ActivityReportRequest list" where
  "reportActivity env a =
     (let a1 = snd (trackActivity env a);
          activities = buildActivities env (activityCache a1) (rangeCache env) []
      in if length activities = 0 then (None, a1, [])
         else (let report = \<lparr>ar_NodeID = cfg_Node_ID a1, Users = activities,
                              ar_Timestamp = timeStamp env\<rparr>
               in (ReportActivity env report, a1, [report])))"

text \<open>\<^verbatim>\<open>cleanupActivityCache\<close>; no function of the agent calls it.\<close>

fun cleanupLoop ::
  "(string \<rightharpoonup> UserConfig) \<Rightarrow> string list \<Rightarrow> (string \<rightharpoonup> UserActivityState) \<Rightarrow>
   (string \<rightharpoonup> UserActivityState)" where
  "cleanupLoop users [] cache = cache"
| "cleanupLoop users (email # ks) cache =
     (if users email = None then cleanupLoop users ks (cache(email := None))
      else cleanupLoop users ks cache)"

definition cleanupActivityCache :: "string list \<Rightarrow> Agent \<Rightarrow> Agent" where
  "cleanupActivityCache ks a = a\<lparr>activityCache := cleanupLoop (currentUsers a) ks (activityCache a)\<rparr>"

section \<open>Traffic report: reportTraffic\<close>

text \<open>
  The loop of \<^verbatim>\<open>reportTraffic\<close>; the state is the slice \<^verbatim>\<open>traffic\<close> and the emails
  \<^verbatim>\<open>ResetUserStats\<close> was called with. The error of a reset is only logged.
\<close>

fun collectTraffic ::
  "TickEnv \<Rightarrow> string list \<Rightarrow> UserTrafficReport list \<times> string list \<Rightarrow>
   UserTrafficReport list \<times> string list" where
  "collectTraffic env [] st = st"
| "collectTraffic env (email # ks) (traffic, resets) =
     (case GetUserStats env email of
        Inl err \<Rightarrow> collectTraffic env ks (traffic, resets)
      | Inr stats \<Rightarrow>
          (if 0 <s UploadBytes stats \<or> 0 <s DownloadBytes stats then
             collectTraffic env ks
               (traffic @ [\<lparr>UserEmail = email, tr_UploadBytes = UploadBytes stats,
                             tr_DownloadBytes = DownloadBytes stats\<rparr>],
                resets @ [email])
           else collectTraffic env ks (traffic, resets)))"

text \<open>
  \<^verbatim>\<open>reportTraffic\<close> returns its error, the emails whose counters it reset and the
  requests it sent to the panel.
\<close>

definition reportTraffic ::
  "TickEnv \<Rightarrow> Agent \<Rightarrow> error option \<times> string list \<times> TrafficReportRequest list" where
  "reportTraffic env a =
     (if dom (currentUsers a) = {} then (None, [], [])
      else (let st = collectTraffic env (rangeUsers env) ([], [])
            in if length (fst st) = 0 then (None, snd st, [])
               else (let report = \<lparr>tr_NodeID = cfg_Node_ID a, Traffic = fst st,
                                    tr_Timestamp = timeStamp env\<rparr>
                     in (ReportTraffic env report, snd st, [report]))))"

text \<open>
  The condition under which a user's traffic is reported, as the specification words
  it: the query of the user's counters succeeds and one of the two counters is
  strictly positive.
\<close>

definition hasTraffic :: "TickEnv \<Rightarrow> string \<Rightarrow> bool" where
  "hasTraffic env email =
     (case GetUserStats env email of
        Inl err \<Rightarrow> False
      | Inr stats \<Rightarrow> 0 <s UploadBytes stats \<or> 0 <s DownloadBytes stats)"

section \<open>The Reality keypair: reality.go\<close>

unbundle bit_operations_syntax

type_synonym byte = "8 word"

text \<open>
  The functions of Go's libraries that reality.go calls, as parameters:
  \<^verbatim>\<open>curve25519.ScalarBaseMult\<close> (the 32 bytes it writes to its destination),
  \<^verbatim>\<open>base64.RawURLEncoding\<close> and \<^verbatim>\<open>filepath.Dir\<close>.
\<close>

record RealityLib =
  ScalarBaseMult :: "byte list \<Rightarrow> byte list"
  EncodeToString :: "byte list \<Rightarrow> string"
  DecodeString :: "string \<Rightarrow> error + byte list"
  filepath_Dir :: "string \<Rightarrow> string"

text \<open>
  The file system, over a state \<open>'w\<close> of the disk: \<^verbatim>\<open>os.MkdirAll\<close>, \<^verbatim>\<open>os.ReadFile\<close>,
  \<^verbatim>\<open>os.WriteFile\<close>. The content of a file is the Go string of its bytes.
\<close>

record 'w OS =
  MkdirAll :: "string \<Rightarrow> 'w \<Rightarrow> error option \<times> 'w"
  ReadFile :: "string \<Rightarrow> 'w \<Rightarrow> error + string"
  WriteFile :: "string \<Rightarrow> string \<Rightarrow> 'w \<Rightarrow> error option \<times> 'w"

text \<open>
  A \<^verbatim>\<open>[32]byte\<close> array that starts as zeros and is overwritten from its first
  element with the bytes \<open>bs\<close>.
\<close>

definition array32 :: "byte list \<Rightarrow> byte list" where
  "array32 bs = take 32 (bs @ replicate (32 - length bs) 0)"

text \<open>The clamping of \<^verbatim>\<open>GenerateRealityKeypair\<close>, on an array of 32 bytes.\<close>

definition clamp :: "byte list \<Rightarrow> byte list" where
  "clamp privateKey =
     (let k1 = privateKey[0 := (privateKey ! 0) AND 248];
          k2 = k1[31 := (k1 ! 31) AND 127]
      in k2[31 := (k2 ! 31) OR 64])"

text \<open>
  \<^verbatim>\<open>GenerateRealityKeypair\<close>; \<open>rnd\<close> is what \<^verbatim>\<open>rand.Read\<close> does: an error, or the bytes
  it puts in the array.
\<close>

definition GenerateRealityKeypair :: "RealityLib \<Rightarrow> error + byte list \<Rightarrow> error + RealityKeys" where
  "GenerateRealityKeypair lib rnd =
     (case rnd of
        Inl err \<Rightarrow> Inl (Wrapped ''failed to generate random bytes'' err)
      | Inr bs \<Rightarrow>
          (let privateKey = clamp (array32 bs);
               publicKey = ScalarBaseMult lib privateKey
           in Inr \<lparr>PrivateKey = EncodeToString lib privateKey,
                    PublicKey = EncodeToString lib publicKey\<rparr>))"

text \<open>
  \<^verbatim>\<open>generateAndSaveKeys\<close> and \<^verbatim>\<open>LoadOrCreateRealityKeys\<close> return the three results of
  the Go function (the keys, \<^verbatim>\<open>isNew\<close>, the error) and the disk they leave.
\<close>

definition generateAndSaveKeys ::
  "RealityLib \<Rightarrow> 'w OS \<Rightarrow> error + byte list \<Rightarrow> string \<Rightarrow> 'w \<Rightarrow>
   (RealityKeys option \<times> bool \<times> error option) \<times> 'w" where
  "generateAndSaveKeys lib os rnd keyPath w =
     (case GenerateRealityKeypair lib rnd of
        Inl err \<Rightarrow> ((None, True, Some (Wrapped ''failed to generate Reality keypair'' err)), w)
      | Inr keys \<Rightarrow>
          (case WriteFile os keyPath (PrivateKey keys) w of
             (Some err, w') \<Rightarrow> ((None, True, Some (Wrapped ''failed to save private key'' err)), w')
           | (None, w') \<Rightarrow> ((Some keys, True, None), w')))"

definition LoadOrCreateRealityKeys ::
  "RealityLib \<Rightarrow> 'w OS \<Rightarrow> error + byte list \<Rightarrow> string \<Rightarrow> 'w \<Rightarrow>
   (RealityKeys option \<times> bool \<times> error option) \<times> 'w" where
  "LoadOrCreateRealityKeys lib os rnd keyPath w =
     (let dir = filepath_Dir lib keyPath in
      case MkdirAll os dir w of
        (Some err, w1) \<Rightarrow> ((None, False, Some (Wrapped ''failed to create key directory'' err)), w1)
      | (None, w1) \<Rightarrow>
          (case ReadFile os keyPath w1 of
             Inr privateKeyStr \<Rightarrow>
               (case DecodeString lib privateKeyStr of
                  Inl err \<Rightarrow> generateAndSaveKeys lib os rnd keyPath w1
                | Inr privateKey \<Rightarrow>
                    if length privateKey \<noteq> 32 then generateAndSaveKeys lib os rnd keyPath w1
                    else (let publicKey = ScalarBaseMult lib (array32 privateKey)
                          in ((Some \<lparr>PrivateKey = privateKeyStr,
                                     PublicKey = EncodeToString lib publicKey\<rparr>, False, None), w1)))
           | Inl err \<Rightarrow> generateAndSaveKeys lib os rnd keyPath w1))"

section \<open>Startup: Agent.Start\<close>

text \<open>\<^verbatim>\<open>panel.NodeConfig\<close>.\<close>

record NodeConfig =
  nc_ID :: nat
  nc_Name :: string
  nc_Address :: string
  nc_Port :: int
  nc_Protocol :: string
  nc_TLSEnabled :: bool
  nc_SNI :: string
  nc_InboundTag :: string
  nc_APIEndpoint :: string
  nc_APIPort :: int
  nc_RealityEnabled :: bool
  nc_RealityDest :: string
  nc_RealityServerNames :: string
  nc_RealityPrivateKey :: string
  nc_RealityPublicKey :: string
  nc_RealityShortIds :: string

text \<open>
  The environment of \<^verbatim>\<open>Start\<close>: what \<^verbatim>\<open>LoadOrCreateRealityKeys\<close> returns for a path on
  the node's disk, what \<^verbatim>\<open>FetchNodeConfig\<close> returns, what \<^verbatim>\<open>EnsureDataFiles\<close> returns,
  what \<^verbatim>\<open>xrayManager.Start\<close> returns for the configuration it is started with, and the
  environment of the initial \<^verbatim>\<open>syncUsers\<close>.
\<close>

record StartEnv =
  LoadOrCreate :: "string \<Rightarrow> RealityKeys option \<times> bool \<times> error option"
  FetchNodeConfig :: "error + NodeConfig"
  EnsureDataFiles :: "error option"
  XrayStart :: "XrayConfig \<Rightarrow> error option"
  InitialSync :: SyncEnv

text \<open>
  What \<^verbatim>\<open>Start\<close> does to its collaborators once the configuration is resolved, in
  order.
\<close>

datatype StartEvent =
  EvNewAPIClient string int string
  | EvEnsureDataFiles
  | EvStartAutoUpdate
  | EvXrayStart XrayConfig
  | EvSleep Duration
  | EvSyncUsers "XrayCall list"
  | EvStartLoops

definition initRealityKeys :: "StartEnv \<Rightarrow> Agent \<Rightarrow> error option \<times> Agent" where
  "initRealityKeys env a =
     (let keyPath = (if RealityKeyPath (cfg_Xray a) = '''' then ''reality_private.key''
                     else RealityKeyPath (cfg_Xray a))
      in case LoadOrCreate env keyPath of
           (keys, isNew, Some err) \<Rightarrow> (Some err, a)
         | (keys, isNew, None) \<Rightarrow> (None, a\<lparr>realityKeys := keys\<rparr>))"

text \<open>The branch of \<^verbatim>\<open>Start\<close> taken when \<^verbatim>\<open>FetchNodeConfig\<close> fails.\<close>

definition useLocalConfig :: "XrayConfig \<Rightarrow> XrayConfig" where
  "useLocalConfig xc = (if InboundTag xc = '''' then xc\<lparr>InboundTag := ''inbound-vless''\<rparr> else xc)"

definition errRealityDest :: error where
  "errRealityDest = Error ''Reality protocol is enabled but Target Destination is not configured in the panel. Please configure it in the admin panel''"

definition errRealityServerNames :: error where
  "errRealityServerNames = Error ''Reality protocol is enabled but Server Names is not configured in the panel. Please configure it in the admin panel''"

definition errRealityShortIds :: error where
  "errRealityShortIds = Error ''Reality protocol is enabled but Short IDs is not configured in the panel. Please configure it in the admin panel''"

definition useAPIPort :: "NodeConfig \<Rightarrow> XrayConfig \<Rightarrow> XrayConfig" where
  "useAPIPort nodeConfig xc =
     (if nc_APIPort nodeConfig > 0 then xc\<lparr>APIPort := nc_APIPort nodeConfig\<rparr> else xc)"

text \<open>
  The branch of \<^verbatim>\<open>Start\<close> taken when \<^verbatim>\<open>FetchNodeConfig\<close> succeeds: the error of the
  validation of the Reality fields, if any, and the configuration as the branch
  leaves it.
\<close>

definition usePanelConfig ::
  "RealityKeys option \<Rightarrow> NodeConfig \<Rightarrow> XrayConfig \<Rightarrow> error option \<times> XrayConfig" where
  "usePanelConfig keys nodeConfig xc =
     (let xc1 = xc\<lparr>Protocol := nc_Protocol nodeConfig, ListenPort := nc_Port nodeConfig,
                   TLSEnabled := nc_TLSEnabled nodeConfig, SNI := nc_SNI nodeConfig,
                   InboundTag := nc_InboundTag nodeConfig\<rparr>;
          xc2 = (if InboundTag xc1 = '''' then xc1\<lparr>InboundTag := ''proxy''\<rparr> else xc1)
      in if nc_RealityEnabled nodeConfig then
           (if nc_RealityDest nodeConfig = '''' then (Some errRealityDest, xc2)
            else if nc_RealityServerNames nodeConfig = '''' then (Some errRealityServerNames, xc2)
            else if nc_RealityShortIds nodeConfig = '''' then (Some errRealityShortIds, xc2)
            else
              (let xc3 = xc2\<lparr>RealityEnabled := True, RealityDest := nc_RealityDest nodeConfig,
                            RealityServerNames := nc_RealityServerNames nodeConfig\<rparr>;
                   xc4 = (case keys of
                            Some k \<Rightarrow> xc3\<lparr>RealityPrivateKey := PrivateKey k,
                                          RealityPublicKey := PublicKey k\<rparr>
                          | None \<Rightarrow> xc3\<lparr>RealityPrivateKey := nc_RealityPrivateKey nodeConfig,
                                        RealityPublicKey := nc_RealityPublicKey nodeConfig\<rparr>);
                   xc5 = xc4\<lparr>RealityShortIds := nc_RealityShortIds nodeConfig\<rparr>
               in (None, useAPIPort nodeConfig xc5)))
         else (None, useAPIPort nodeConfig (xc2\<lparr>RealityEnabled := False\<rparr>)))"

text \<open>
  The rest of \<^verbatim>\<open>Start\<close>, from \<^verbatim>\<open>xray.NewAPIClient\<close> on: the GeoData files, the start of
  the engine, the initial sync (its error is only logged) and the four loops.
\<close>

definition startEngine :: "StartEnv \<Rightarrow> Agent \<Rightarrow> error option \<times> Agent \<times> StartEvent list" where
  "startEngine env a =
     (let xc = cfg_Xray a;
          evs1 = [EvNewAPIClient (APIAddress xc) (APIPort xc) (InboundTag xc)];
          evs2 = (if GeoIPPath xc \<noteq> '''' \<and> GeoSitePath xc \<noteq> '''' then
                    (case EnsureDataFiles env of
                       Some err \<Rightarrow> [EvEnsureDataFiles]
                     | None \<Rightarrow> [EvEnsureDataFiles, EvStartAutoUpdate])
                  else [])
      in case XrayStart env xc of
           Some err \<Rightarrow> (Some err, a, evs1 @ evs2 @ [EvXrayStart xc])
         | None \<Rightarrow>
             (let r = syncUsers (InitialSync env) a
              in (None, fst (snd r),
                  evs1 @ evs2 @ [EvXrayStart xc, EvSleep (2 * Second), EvSyncUsers (snd (snd r)),
                                 EvStartLoops])))"

text \<open>
  \<^verbatim>\<open>Start\<close> returns its error, the agent as it leaves it and what it did to its
  collaborators after resolving the configuration.
\<close>

definition Start :: "StartEnv \<Rightarrow> Agent \<Rightarrow> error option \<times> Agent \<times> StartEvent list" where
  "Start env a =
     (let a1 = snd (initRealityKeys env a) in
      case FetchNodeConfig env of
        Inl err \<Rightarrow> startEngine env (a1\<lparr>cfg_Xray := useLocalConfig (cfg_Xray a1)\<rparr>)
      | Inr nodeConfig \<Rightarrow>
          (case usePanelConfig (realityKeys a1) nodeConfig (cfg_Xray a1) of
             (Some err, xc) \<Rightarrow> (Some err, a1\<lparr>cfg_Xray := xc\<rparr>, [])
           | (None, xc) \<Rightarrow> startEngine env (a1\<lparr>cfg_Xray := xc\<rparr>)))"

section \<open>Configuration: config.go and the agent's main\<close>

text \<open>
  \<^verbatim>\<open>config.Config\<close> and its parts. \<^verbatim>\<open>config.NodeConfig\<close> is \<open>config_NodeConfig\<close> here,
  \<^verbatim>\<open>panel.NodeConfig\<close> having the name.
\<close>

record config_NodeConfig =
  node_ID :: nat
  node_Name :: string

record PanelConfig =
  URL :: string
  APIKey :: string
  Timeout :: Duration

record FilesConfig =
  TLSCert :: string
  TLSKey :: string
  GeoIP :: string
  GeoSite :: string
  files_XrayConfig :: string
  files_RealityKeyPath :: string

record IntervalConfig =
  Heartbeat :: Duration
  UserSync :: Duration
  TrafficReport :: Duration
  ActivityReport :: Duration

record LoggingConfig =
  log_Level :: string
  log_Format :: string

record Config =
  Node :: config_NodeConfig
  Panel :: PanelConfig
  Files :: FilesConfig
  Xray :: XrayConfig
  Intervals :: IntervalConfig
  Logging :: LoggingConfig

text \<open>
  What the configuration file says: the value of each key, \<open>None\<close> for a key the file
  does not have. The keys are those of the \<^verbatim>\<open>yaml\<close> tags of \<^verbatim>\<open>Config\<close>, and the keys
  \<^verbatim>\<open>protocol\<close>, \<^verbatim>\<open>listen_port\<close>, \<^verbatim>\<open>tls_enabled\<close> and \<^verbatim>\<open>sni\<close> under \<^verbatim>\<open>xray\<close>, which
  PANEL_CONFIG.md and README.md give in the file and which no field is tagged with.
\<close>

record ConfigYaml =
  y_node_id :: "nat option"
  y_node_name :: "string option"
  y_panel_url :: "string option"
  y_panel_api_key :: "string option"
  y_panel_timeout :: "Duration option"
  y_files_tls_cert :: "string option"
  y_files_tls_key :: "string option"
  y_files_geoip :: "string option"
  y_files_geosite :: "string option"
  y_files_xray_config :: "string option"
  y_files_reality_key :: "string option"
  y_xray_api_address :: "string option"
  y_xray_api_port :: "int option"
  y_xray_protocol :: "string option"
  y_xray_listen_port :: "int option"
  y_xray_tls_enabled :: "bool option"
  y_xray_sni :: "string option"
  y_intervals_heartbeat :: "Duration option"
  y_intervals_user_sync :: "Duration option"
  y_intervals_traffic_report :: "Duration option"
  y_intervals_activity_report :: "Duration option"
  y_logging_level :: "string option"
  y_logging_format :: "string option"

text \<open>The value of a key, or the zero value of the field when the file has no such key.\<close>

fun keyOr :: "'a \<Rightarrow> 'a option \<Rightarrow> 'a" where
  "keyOr zero None = zero"
| "keyOr zero (Some v) = v"

text \<open>
  \<^verbatim>\<open>yaml.Unmarshal(data, &cfg)\<close> on a zero \<^verbatim>\<open>Config\<close>: a field takes the value of the key
  of its tag; a field tagged \<^verbatim>\<open>yaml:"-"\<close> is never set and keeps its zero value.
\<close>

definition unmarshal :: "ConfigYaml \<Rightarrow> Config" where
  "unmarshal doc =
     \<lparr>Node = \<lparr>node_ID = keyOr 0 (y_node_id doc), node_Name = keyOr '''' (y_node_name doc)\<rparr>,
      Panel = \<lparr>URL = keyOr '''' (y_panel_url doc), APIKey = keyOr '''' (y_panel_api_key doc),
               Timeout = keyOr 0 (y_panel_timeout doc)\<rparr>,
      Files = \<lparr>TLSCert = keyOr '''' (y_files_tls_cert doc),
               TLSKey = keyOr '''' (y_files_tls_key doc),
               GeoIP = keyOr '''' (y_files_geoip doc),
               GeoSite = keyOr '''' (y_files_geosite doc),
               files_XrayConfig = keyOr '''' (y_files_xray_config doc),
               files_RealityKeyPath = keyOr '''' (y_files_reality_key doc)\<rparr>,
      Xray = \<lparr>APIAddress = keyOr '''' (y_xray_api_address doc),
              APIPort = keyOr 0 (y_xray_api_port doc),
              Protocol = '''', ListenAddress = '''', ListenPort = 0, TLSEnabled = False,
              CertFile = '''', KeyFile = '''', SNI = '''', InboundTag = '''', GeoIPPath = '''',
              GeoSitePath = '''', ConfigPath = '''', RealityEnabled = False, RealityDest = '''',
              RealityServerNames = '''', RealityPrivateKey = '''', RealityPublicKey = '''',
              RealityShortIds = '''', RealityKeyPath = ''''\<rparr>,
      Intervals = \<lparr>Heartbeat = keyOr 0 (y_intervals_heartbeat doc),
                   UserSync = keyOr 0 (y_intervals_user_sync doc),
                   TrafficReport = keyOr 0 (y_intervals_traffic_report doc),
                   ActivityReport = keyOr 0 (y_intervals_activity_report doc)\<rparr>,
      Logging = \<lparr>log_Level = keyOr '''' (y_logging_level doc),
                 log_Format = keyOr '''' (y_logging_format doc)\<rparr>\<rparr>"

text \<open>
  \<^verbatim>\<open>config.Load\<close>; \<open>file\<close> is what \<^verbatim>\<open>os.ReadFile\<close> and \<^verbatim>\<open>yaml.Unmarshal\<close> make of the
  path: the error of one of them, or what the file says.
\<close>

definition Load :: "error + ConfigYaml \<Rightarrow> error + Config" where
  "Load file =
     (case file of
        Inl err \<Rightarrow> Inl err
      | Inr doc \<Rightarrow>
          (let cfg = unmarshal doc;
               panel = (if Timeout (Panel cfg) = 0 then (Panel cfg)\<lparr>Timeout := 10 * Second\<rparr>
                        else Panel cfg);
               iv1 = (if Heartbeat (Intervals cfg) = 0
                      then (Intervals cfg)\<lparr>Heartbeat := 30 * Second\<rparr> else Intervals cfg);
               iv2 = (if UserSync iv1 = 0 then iv1\<lparr>UserSync := 5 * Minute\<rparr> else iv1);
               iv3 = (if TrafficReport iv2 = 0 then iv2\<lparr>TrafficReport := 1 * Minute\<rparr> else iv2);
               iv4 = (if ActivityReport iv3 = 0 then iv3\<lparr>ActivityReport := 30 * Second\<rparr>
                      else iv3);
               lg1 = (if log_Level (Logging cfg) = '''' then (Logging cfg)\<lparr>log_Level := ''info''\<rparr>
                      else Logging cfg);
               lg2 = (if log_Format lg1 = '''' then lg1\<lparr>log_Format := ''json''\<rparr> else lg1);
               xr1 = (Xray cfg)\<lparr>CertFile := TLSCert (Files cfg), KeyFile := TLSKey (Files cfg),
                                 GeoIPPath := GeoIP (Files cfg), GeoSitePath := GeoSite (Files cfg),
                                 ConfigPath := files_XrayConfig (Files cfg),
                                 ListenAddress := ''0.0.0.0''\<rparr>;
               xr2 = (if files_RealityKeyPath (Files cfg) \<noteq> ''''
                      then xr1\<lparr>RealityKeyPath := files_RealityKeyPath (Files cfg)\<rparr>
                      else xr1\<lparr>RealityKeyPath := ''reality_private.key''\<rparr>)
           in Inr (cfg\<lparr>Panel := panel, Intervals := iv4, Logging := lg2, Xray := xr2\<rparr>)))"

text \<open>
  \<^verbatim>\<open>NewAgent\<close>: the agent \<^verbatim>\<open>main\<close> makes from the configuration \<^verbatim>\<open>Load\<close> returned, before
  it calls \<^verbatim>\<open>Start\<close>.
\<close>

definition NewAgent :: "Config \<Rightarrow> Agent" where
  "NewAgent cfg =
     \<lparr>cfg_Node_ID = node_ID (Node cfg), cfg_Xray = Xray cfg, currentUsers = Map.empty,
      activityCache = Map.empty, realityKeys = None\<rparr>"

section \<open>Concrete agents and environments\<close>

text \<open>The inputs at which the theorems below are evaluated.\<close>

definition ex_xray :: XrayConfig where
  "ex_xray =
     \<lparr>APIAddress = ''127.0.0.1'', APIPort = 10085, Protocol = ''vless'',
      ListenAddress = ''0.0.0.0'', ListenPort = 443, TLSEnabled = False, CertFile = '''',
      KeyFile = '''', SNI = '''', InboundTag = '''', GeoIPPath = '''', GeoSitePath = '''',
      ConfigPath = '''', RealityEnabled = False, RealityDest = '''', RealityServerNames = '''',
      RealityPrivateKey = '''', RealityPublicKey = '''', RealityShortIds = '''',
      RealityKeyPath = ''reality_private.key''\<rparr>"

definition ex_user :: "string \<Rightarrow> UserConfig" where
  "ex_user email =
     \<lparr>UserID = 1, Email = email, UUID = ''uuid'', Status = ''active'', DataLimit = 0,
      DataUsed = 0\<rparr>"

definition ex_agent :: Agent where
  "ex_agent =
     \<lparr>cfg_Node_ID = 1, cfg_Xray = ex_xray, currentUsers = Map.empty,
      activityCache = Map.empty, realityKeys = None\<rparr>"

definition always_ok :: "'a \<Rightarrow> error option" where
  "always_ok x = None"

definition ex_sync_env :: SyncEnv where
  "ex_sync_env =
     \<lparr>FetchUserSync = Inr [ex_user ''alice'', ex_user ''bob''], AddUser = always_ok,
      RemoveUser = always_ok, rangePanelUsers = [''alice'', ''bob''],
      rangeCurrentUsers = [''bob'', ''alice'']\<rparr>"

definition ex_sync_down :: SyncEnv where
  "ex_sync_down =
     \<lparr>FetchUserSync = Inl (Error ''panel unreachable''), AddUser = always_ok,
      RemoveUser = always_ok, rangePanelUsers = [], rangeCurrentUsers = []\<rparr>"

definition ex_GetUserStats :: "string \<Rightarrow> error + XrayStats" where
  "ex_GetUserStats email =
     (if email = ''alice'' then Inr \<lparr>UploadBytes = 150, DownloadBytes = 50\<rparr>
      else if email = ''bob'' then Inr \<lparr>UploadBytes = 0, DownloadBytes = 0\<rparr>
      else Inl (Error ''stats unavailable''))"

definition ex_GetOnlineIPs :: "string \<Rightarrow> error + string list" where
  "ex_GetOnlineIPs email = Inr [''10.0.0.7'']"

definition ex_clock :: "string \<Rightarrow> Time" where
  "ex_clock email = 1000 * Second"

definition ex_tick_env :: TickEnv where
  "ex_tick_env =
     \<lparr>GetUserStats = ex_GetUserStats, ResetUserStats = always_ok, GetOnlineIPs = ex_GetOnlineIPs,
      ReportTraffic = always_ok, ReportActivity = always_ok, timeNow = 1000 * Second,
      clockAt = ex_clock, timeStamp = 1001 * Second,
      rangeUsers = [''alice'', ''bob'', ''carol''], rangeCache = [''bob'', ''alice'', ''dave'']\<rparr>"

definition ex_seen :: "string \<Rightarrow> int64 \<Rightarrow> int64 \<Rightarrow> UserActivityState" where
  "ex_seen email up down =
     \<lparr>as_Email = email, LastSeen = 910 * Second, LastUplink = up, LastDownlink = down,
      IsActive = False\<rparr>"

definition ex_tick_agent :: Agent where
  "ex_tick_agent =
     \<lparr>cfg_Node_ID = 1, cfg_Xray = ex_xray,
      currentUsers = [''alice'' \<mapsto> ex_user ''alice'', ''bob'' \<mapsto> ex_user ''bob'',
                      ''carol'' \<mapsto> ex_user ''carol''],
      activityCache = [''alice'' \<mapsto> ex_seen ''alice'' 100 50, ''dave'' \<mapsto> ex_seen ''dave'' 7 7],
      realityKeys = None\<rparr>"

text \<open>
  A disk that maps a path to the content of its file, a codec and a scalar
  multiplication that stand for the ones of the libraries, and environments of
  \<^verbatim>\<open>Start\<close>.
\<close>

definition mem_MkdirAll :: "string \<Rightarrow> (string \<rightharpoonup> string) \<Rightarrow> error option \<times> (string \<rightharpoonup> string)" where
  "mem_MkdirAll dir w = (None, w)"

definition mem_ReadFile :: "string \<Rightarrow> (string \<rightharpoonup> string) \<Rightarrow> error + string" where
  "mem_ReadFile path w =
     (case w path of None \<Rightarrow> Inl (Error ''no such file or directory'') | Some c \<Rightarrow> Inr c)"

definition mem_WriteFile ::
  "string \<Rightarrow> string \<Rightarrow> (string \<rightharpoonup> string) \<Rightarrow> error option \<times> (string \<rightharpoonup> string)" where
  "mem_WriteFile path c w = (None, w(path \<mapsto> c))"

definition mem_os :: "(string \<rightharpoonup> string) OS" where
  "mem_os = \<lparr>MkdirAll = mem_MkdirAll, ReadFile = mem_ReadFile, WriteFile = mem_WriteFile\<rparr>"

definition ex_encode :: "byte list \<Rightarrow> string" where
  "ex_encode bs = map (\<lambda>b. char_of (unat b)) bs"

definition ex_decode :: "string \<Rightarrow> error + byte list" where
  "ex_decode s = Inr (map (\<lambda>c. of_nat (of_char c)) s)"

definition ex_dir :: "string \<Rightarrow> string" where
  "ex_dir path = ''.''"

definition ex_lib :: RealityLib where
  "ex_lib = \<lparr>ScalarBaseMult = rev, EncodeToString = ex_encode, DecodeString = ex_decode,
             filepath_Dir = ex_dir\<rparr>"

definition ex_random :: "error + byte list" where
  "ex_random = Inr (replicate 32 255)"

definition no_keys :: "string \<Rightarrow> RealityKeys option \<times> bool \<times> error option" where
  "no_keys path = (None, True, Some (Wrapped ''failed to save private key'' (Error ''permission denied'')))"

definition ex_start_down :: StartEnv where
  "ex_start_down =
     \<lparr>LoadOrCreate = no_keys, FetchNodeConfig = Inl (Error ''panel unreachable''),
      EnsureDataFiles = None, XrayStart = always_ok, InitialSync = ex_sync_down\<rparr>"

definition ex_node_config :: NodeConfig where
  "ex_node_config =
     \<lparr>nc_ID = 1, nc_Name = ''node-1'', nc_Address = ''203.0.113.5'', nc_Port = 443,
      nc_Protocol = ''vless'', nc_TLSEnabled = False, nc_SNI = '''', nc_InboundTag = ''proxy'',
      nc_APIEndpoint = '''', nc_APIPort = 0, nc_RealityEnabled = True, nc_RealityDest = '''',
      nc_RealityServerNames = ''www.example.com'', nc_RealityPrivateKey = '''',
      nc_RealityPublicKey = '''', nc_RealityShortIds = ''0123abcd''\<rparr>"

definition ex_start_reality :: StartEnv where
  "ex_start_reality =
     \<lparr>LoadOrCreate = no_keys, FetchNodeConfig = Inr ex_node_config,
      EnsureDataFiles = None, XrayStart = always_ok, InitialSync = ex_sync_env\<rparr>"

text \<open>
  The configuration file of README.md with the \<^verbatim>\<open>xray\<close> keys of PANEL_CONFIG.md, and the
  configuration \<^verbatim>\<open>Load\<close> makes of it.
\<close>

definition doc_yaml :: ConfigYaml where
  "doc_yaml =
     \<lparr>y_node_id = Some 1, y_node_name = Some ''US-West-1'',
      y_panel_url = Some ''https://panel.example.com'', y_panel_api_key = Some ''your-api-key'',
      y_panel_timeout = None, y_files_tls_cert = None, y_files_tls_key = None,
      y_files_geoip = None, y_files_geosite = None, y_files_xray_config = None,
      y_files_reality_key = None, y_xray_api_address = Some ''127.0.0.1'',
      y_xray_api_port = Some 10085, y_xray_protocol = Some ''vless'',
      y_xray_listen_port = Some 443, y_xray_tls_enabled = Some True,
      y_xray_sni = Some ''vpn.example.com'', y_intervals_heartbeat = None,
      y_intervals_user_sync = None, y_intervals_traffic_report = None,
      y_intervals_activity_report = None, y_logging_level = None, y_logging_format = None\<rparr>"

definition doc_config :: Config where
  "doc_config =
     \<lparr>Node = \<lparr>node_ID = 1, node_Name = ''US-West-1''\<rparr>,
      Panel = \<lparr>URL = ''https://panel.example.com'', APIKey = ''your-api-key'',
               Timeout = 10 * Second\<rparr>,
      Files = \<lparr>TLSCert = '''', TLSKey = '''', GeoIP = '''', GeoSite = '''',
               files_XrayConfig = '''', files_RealityKeyPath = ''''\<rparr>,
      Xray = \<lparr>APIAddress = ''127.0.0.1'', APIPort = 10085, Protocol = '''',
              ListenAddress = ''0.0.0.0'', ListenPort = 0, TLSEnabled = False, CertFile = '''',
              KeyFile = '''', SNI = '''', InboundTag = '''', GeoIPPath = '''',
              GeoSitePath = '''', ConfigPath = '''', RealityEnabled = False, RealityDest = '''',
              RealityServerNames = '''', RealityPrivateKey = '''', RealityPublicKey = '''',
              RealityShortIds = '''', RealityKeyPath = ''reality_private.key''\<rparr>,
      Intervals = \<lparr>Heartbeat = 30 * Second, UserSync = 5 * Minute, TrafficReport = 1 * Minute,
                   ActivityReport = 30 * Second\<rparr>,
      Logging = \<lparr>log_Level = ''info'', log_Format = ''json''\<rparr>\<rparr>"

section \<open>Reconciliation: the two loops\<close>

lemma dom_buildPanelUsers: "dom (buildPanelUsers us m) = dom m \<union> Email ` set us"
  by (induction us arbitrary: m) auto

lemma addUsers_calls_mono:
  "set calls \<subseteq> set (fst (snd (addUsers xc add p ks (cur, calls, n))))"
proof (induction ks arbitrary: cur calls n)
  case Nil
  then show ?case by simp
next
  case (Cons k ks)
  have step: "\<And>cur2 c n2. set calls \<subseteq> set (fst (snd (addUsers xc add p ks (cur2, calls @ [c], n2))))"
    using Cons.IH by fastforce
  show ?case
    using Cons.IH [of calls cur n] step
    by (simp add: Let_def split: option.splits)
qed

lemma addUsers_calls_shape:
  "c \<in> set (fst (snd (addUsers xc add p ks (cur, calls, n)))) \<Longrightarrow>
   c \<in> set calls \<or> (\<exists>u r. c = AddUserCall u r)"
proof (induction ks arbitrary: cur calls n)
  case Nil
  then show ?case by simp
next
  case (Cons k ks)
  from Cons.prems show ?case
    by (auto simp: Let_def split: option.splits if_splits dest!: Cons.IH)
qed

lemma addUsers_lookup:
  "\<forall>c \<in> set (fst (snd (addUsers xc add p ks (cur, calls, n)))). call_ok c \<Longrightarrow>
   fst (addUsers xc add p ks (cur, calls, n)) e =
     (if cur e = None \<and> e \<in> set ks then p e else cur e)"
proof (induction ks arbitrary: cur calls n)
  case Nil
  then show ?case by simp
next
  case (Cons k ks)
  show ?case
  proof (cases "p k")
    case None
    with Cons show ?thesis by auto
  next
    case (Some user)
    note pk = this
    show ?thesis
    proof (cases "cur k = None")
      case False
      with pk Cons show ?thesis by auto
    next
      case True
      show ?thesis
      proof (cases "add (newXrayUser xc user)")
        case None
        have eq: "addUsers xc add p (k # ks) (cur, calls, n) =
                  addUsers xc add p ks (cur(k \<mapsto> user), calls @ [AddUserCall (newXrayUser xc user) None], n + 1)"
          using None True pk by (simp add: Let_def)
        have "\<forall>c \<in> set (fst (snd (addUsers xc add p ks (cur(k \<mapsto> user), calls @ [AddUserCall (newXrayUser xc user) None], n + 1)))). call_ok c"
          using Cons.prems unfolding eq .
        then have d: "fst (addUsers xc add p ks (cur(k \<mapsto> user), calls @ [AddUserCall (newXrayUser xc user) None], n + 1)) e =
                 (if (cur(k \<mapsto> user)) e = None \<and> e \<in> set ks then p e else (cur(k \<mapsto> user)) e)"
          by (rule Cons.IH)
        show ?thesis unfolding eq d using pk True by auto
      next
        case (Some err)
        have "AddUserCall (newXrayUser xc user) (Some err) \<in> set (fst (snd (addUsers xc add p ks (cur, calls @ [AddUserCall (newXrayUser xc user) (Some err)], n))))"
          using addUsers_calls_mono [of "calls @ [AddUserCall (newXrayUser xc user) (Some err)]"] by auto
        with Some True pk Cons.prems show ?thesis by (auto simp: Let_def)
      qed
    qed
  qed
qed

lemma addUsers_idle:
  "set ks \<inter> dom p \<subseteq> dom cur \<Longrightarrow> addUsers xc add p ks (cur, calls, n) = (cur, calls, n)"
  by (induction ks) (auto split: option.splits)

lemma removeUsers_idle:
  "set ks \<subseteq> dom p \<Longrightarrow> removeUsers rm p ks (cur, calls, n) = (cur, calls, n)"
  by (induction ks) auto

lemma removeUsers_calls_mono:
  "set calls \<subseteq> set (fst (snd (removeUsers rm p ks (cur, calls, n))))"
proof (induction ks arbitrary: cur calls n)
  case Nil
  then show ?case by simp
next
  case (Cons k ks)
  have step: "\<And>cur2 c n2. set calls \<subseteq> set (fst (snd (removeUsers rm p ks (cur2, calls @ [c], n2))))"
    using Cons.IH by fastforce
  show ?case
    using Cons.IH [of calls cur n] step
    by (simp add: Let_def split: option.splits)
qed

lemma removeUsers_lookup:
  "\<forall>c \<in> set (fst (snd (removeUsers rm p ks (cur, calls, n)))). call_ok c \<Longrightarrow>
   fst (removeUsers rm p ks (cur, calls, n)) e =
     (if p e = None \<and> e \<in> set ks then None else cur e)"
proof (induction ks arbitrary: cur calls n)
  case Nil
  then show ?case by simp
next
  case (Cons k ks)
  show ?case
  proof (cases "p k = None")
    case False
    with Cons show ?thesis by auto
  next
    case True
    show ?thesis
    proof (cases "rm k")
      case None
      have eq: "removeUsers rm p (k # ks) (cur, calls, n) =
                removeUsers rm p ks (cur(k := None), calls @ [RemoveUserCall k None], n + 1)"
        using None True by simp
      have "\<forall>c \<in> set (fst (snd (removeUsers rm p ks (cur(k := None), calls @ [RemoveUserCall k None], n + 1)))). call_ok c"
        using Cons.prems unfolding eq .
      then have d: "fst (removeUsers rm p ks (cur(k := None), calls @ [RemoveUserCall k None], n + 1)) e =
               (if p e = None \<and> e \<in> set ks then None else (cur(k := None)) e)"
        by (rule Cons.IH)
      show ?thesis unfolding eq d using True by auto
    next
      case (Some err)
      have "RemoveUserCall k (Some err) \<in> set (fst (snd (removeUsers rm p ks (cur, calls @ [RemoveUserCall k (Some err)], n))))"
        using removeUsers_calls_mono [of "calls @ [RemoveUserCall k (Some err)]"] by auto
      with Some True Cons.prems show ?thesis by auto
    qed
  qed
qed

lemmas ex_sync_defs = ex_sync_env_def ex_agent_def ex_user_def ex_xray_def always_ok_def
  syncUsers_def sync_ranges_def range_order_def newXrayUser_def

section \<open>Reconciliation: the claims\<close>

text \<open>
  C9. Whatever \<^verbatim>\<open>currentUsers\<close> holds, when the fetch of the desired users fails,
  \<^verbatim>\<open>syncUsers\<close> returns that failure, calls neither \<^verbatim>\<open>AddUser\<close> nor \<^verbatim>\<open>RemoveUser\<close>, and
  leaves the agent, and so \<^verbatim>\<open>currentUsers\<close>, as it was.
\<close>

theorem syncUsers_fetch_failure:
  "FetchUserSync env = Inl e \<Longrightarrow> syncUsers env a = (Some e, a, [])"
  by (simp add: syncUsers_def)

theorem syncUsers_fetch_failure_witness:
  "FetchUserSync ex_sync_down = Inl (Error ''panel unreachable'') \<and>
   syncUsers ex_sync_down ex_agent = (Some (Error ''panel unreachable''), ex_agent, [])"
proof -
  have h: "FetchUserSync ex_sync_down = Inl (Error ''panel unreachable'')"
    by (simp add: ex_sync_down_def)
  from h syncUsers_fetch_failure [OF h] show ?thesis by simp
qed

text \<open>
  C1. Convergence: when the fetch returns the users \<open>D\<close>, \<^verbatim>\<open>currentUsers\<close> is empty
  before the pass and every \<^verbatim>\<open>AddUser\<close> call of the pass succeeds, the pass returns
  no error and the emails in \<^verbatim>\<open>currentUsers\<close> after it are exactly the emails of \<open>D\<close>
  (\<^verbatim>\<open>currentUsers\<close> is then the map built from \<open>D\<close>).
\<close>

theorem syncUsers_convergence:
  assumes fetch: "FetchUserSync env = Inr D"
    and empty: "currentUsers a = Map.empty"
    and ranges: "sync_ranges env a"
    and adds_ok: "\<forall>u r. AddUserCall u r \<in> set (snd (snd (syncUsers env a))) \<longrightarrow> r = None"
  shows "fst (syncUsers env a) = None \<and>
         dom (currentUsers (fst (snd (syncUsers env a)))) = Email ` set D \<and>
         currentUsers (fst (snd (syncUsers env a))) = buildPanelUsers D Map.empty"
proof -
  define p where "p = buildPanelUsers D Map.empty"
  define st1 where "st1 = addUsers (cfg_Xray a) (AddUser env) p (rangePanelUsers env) (currentUsers a, [], 0)"
  have r1: "range_order p (rangePanelUsers env)" and r2: "range_order (fst st1) (rangeCurrentUsers env)"
    using ranges fetch by (simp_all add: sync_ranges_def p_def st1_def)
  have shape: "\<forall>c \<in> set (fst (snd st1)). \<exists>u r. c = AddUserCall u r"
    using addUsers_calls_shape [of _ "cfg_Xray a" "AddUser env" p "rangePanelUsers env" "currentUsers a" "[]" 0]
    by (auto simp: st1_def)
  have sub: "set (fst (snd st1)) \<subseteq> set (snd (snd (syncUsers env a)))"
    using removeUsers_calls_mono [of "fst (snd st1)" "RemoveUser env" p "rangeCurrentUsers env" "fst st1" 0]
    by (simp add: syncUsers_def fetch p_def st1_def Let_def)
  have ok1: "\<forall>c \<in> set (fst (snd st1)). call_ok c"
  proof
    fix c assume c: "c \<in> set (fst (snd st1))"
    with shape obtain u r where "c = AddUserCall u r" by blast
    with c sub adds_ok show "call_ok c" by auto
  qed
  have cur1: "fst st1 = p"
  proof
    fix e
    have "fst st1 e = (if currentUsers a e = None \<and> e \<in> set (rangePanelUsers env) then p e else currentUsers a e)"
      unfolding st1_def using ok1 [unfolded st1_def] by (rule addUsers_lookup)
    with r1 show "fst st1 e = p e"
      by (auto simp: range_order_def empty)
  qed
  have idle: "removeUsers (RemoveUser env) p (rangeCurrentUsers env) (p, fst (snd st1), 0) = (p, fst (snd st1), 0)"
    using r2 cur1 by (intro removeUsers_idle) (simp add: range_order_def)
  have res: "syncUsers env a = (None, a\<lparr>currentUsers := p\<rparr>, fst (snd st1))"
    using idle cur1 by (simp add: syncUsers_def fetch p_def [symmetric] st1_def [symmetric] Let_def)
  show ?thesis
    by (simp add: res p_def dom_buildPanelUsers)
qed

theorem syncUsers_convergence_witness:
  "FetchUserSync ex_sync_env = Inr [ex_user ''alice'', ex_user ''bob''] \<and>
   currentUsers ex_agent = Map.empty \<and> sync_ranges ex_sync_env ex_agent \<and>
   dom (currentUsers (fst (snd (syncUsers ex_sync_env ex_agent)))) = {''alice'', ''bob''}"
proof -
  have h1: "FetchUserSync ex_sync_env = Inr [ex_user ''alice'', ex_user ''bob'']"
    by (simp add: ex_sync_env_def)
  have h2: "currentUsers ex_agent = Map.empty"
    by (simp add: ex_agent_def)
  have h3: "sync_ranges ex_sync_env ex_agent"
    by (simp add: ex_sync_defs) auto
  have h4: "\<forall>u r. AddUserCall u r \<in> set (snd (snd (syncUsers ex_sync_env ex_agent))) \<longrightarrow> r = None"
    by (simp add: ex_sync_defs)
  from syncUsers_convergence [OF h1 h2 h3 h4] h1 h2 h3 show ?thesis
    by (auto simp: ex_user_def)
qed

text \<open>
  C2. Idempotence: take any agent, and a pass on it whose fetch succeeded and whose
  engine calls all succeeded. A second pass whose fetch returns users with the same
  emails makes no \<^verbatim>\<open>AddUser\<close> and no \<^verbatim>\<open>RemoveUser\<close> call and leaves the agent, and so
  \<^verbatim>\<open>currentUsers\<close>, unchanged.
\<close>

theorem syncUsers_idempotent:
  assumes fetch1: "FetchUserSync env1 = Inr D1"
    and ranges1: "sync_ranges env1 a0"
    and all_ok: "\<forall>c \<in> set (snd (snd (syncUsers env1 a0))). call_ok c"
    and fetch2: "FetchUserSync env2 = Inr D2"
    and same: "Email ` set D2 = Email ` set D1"
    and ranges2: "sync_ranges env2 (fst (snd (syncUsers env1 a0)))"
  shows "syncUsers env2 (fst (snd (syncUsers env1 a0))) = (None, fst (snd (syncUsers env1 a0)), [])"
proof -
  define p1 where "p1 = buildPanelUsers D1 Map.empty"
  define st1 where "st1 = addUsers (cfg_Xray a0) (AddUser env1) p1 (rangePanelUsers env1) (currentUsers a0, [], 0)"
  define st2 where "st2 = removeUsers (RemoveUser env1) p1 (rangeCurrentUsers env1) (fst st1, fst (snd st1), 0)"
  define a1 where "a1 = fst (snd (syncUsers env1 a0))"
  have res1: "syncUsers env1 a0 = (None, a0\<lparr>currentUsers := fst st2\<rparr>, fst (snd st2))"
    by (simp add: syncUsers_def fetch1 p1_def st1_def st2_def Let_def)
  have a1: "currentUsers a1 = fst st2"
    by (simp add: a1_def res1)
  have r1: "range_order p1 (rangePanelUsers env1)" and r2: "range_order (fst st1) (rangeCurrentUsers env1)"
    using ranges1 fetch1 by (simp_all add: sync_ranges_def p1_def st1_def)
  have ok2: "\<forall>c \<in> set (fst (snd st2)). call_ok c"
    using all_ok by (simp add: res1)
  have "set (fst (snd st1)) \<subseteq> set (fst (snd st2))"
    unfolding st2_def by (rule removeUsers_calls_mono)
  with ok2 have ok1: "\<forall>c \<in> set (fst (snd st1)). call_ok c" by blast
  have l1: "fst st1 e = (if currentUsers a0 e = None \<and> e \<in> set (rangePanelUsers env1) then p1 e else currentUsers a0 e)" for e
    unfolding st1_def using ok1 [unfolded st1_def] by (rule addUsers_lookup)
  have l2: "fst st2 e = (if p1 e = None \<and> e \<in> set (rangeCurrentUsers env1) then None else fst st1 e)" for e
    unfolding st2_def using ok2 [unfolded st2_def] by (rule removeUsers_lookup)
  have dom1: "dom (currentUsers a1) = dom p1"
    using r1 r2 unfolding a1 range_order_def
    by (auto simp: l1 l2 dom_def split: if_splits)
  define p2 where "p2 = buildPanelUsers D2 Map.empty"
  have dom2: "dom p2 = dom (currentUsers a1)"
    using same by (simp add: dom1 p1_def p2_def dom_buildPanelUsers)
  have idle1: "addUsers (cfg_Xray a1) (AddUser env2) p2 (rangePanelUsers env2) (currentUsers a1, [], 0) = (currentUsers a1, [], 0)"
    using dom2 by (intro addUsers_idle) auto
  have r2': "range_order (currentUsers a1) (rangeCurrentUsers env2)"
    using ranges2 fetch2 idle1 by (simp add: sync_ranges_def a1_def [symmetric] p2_def [symmetric])
  have idle2: "removeUsers (RemoveUser env2) p2 (rangeCurrentUsers env2) (currentUsers a1, [], 0) = (currentUsers a1, [], 0)"
    using r2' dom2 by (intro removeUsers_idle) (simp add: range_order_def)
  have "syncUsers env2 a1 = (None, a1, [])"
    by (simp add: syncUsers_def fetch2 p2_def [symmetric] idle1 idle2 Let_def)
  then show ?thesis by (simp add: a1_def)
qed

theorem syncUsers_idempotent_witness:
  "FetchUserSync ex_sync_env = Inr [ex_user ''alice'', ex_user ''bob''] \<and>
   sync_ranges ex_sync_env ex_agent \<and>
   list_all call_ok (snd (snd (syncUsers ex_sync_env ex_agent))) \<and>
   sync_ranges ex_sync_env (fst (snd (syncUsers ex_sync_env ex_agent))) \<and>
   syncUsers ex_sync_env (fst (snd (syncUsers ex_sync_env ex_agent))) =
     (None, fst (snd (syncUsers ex_sync_env ex_agent)), [])"
proof -
  have h1: "FetchUserSync ex_sync_env = Inr [ex_user ''alice'', ex_user ''bob'']"
    by (simp add: ex_sync_env_def)
  have h2: "sync_ranges ex_sync_env ex_agent"
    by (simp add: ex_sync_defs) auto
  have h3: "\<forall>c \<in> set (snd (snd (syncUsers ex_sync_env ex_agent))). call_ok c"
    by (simp add: ex_sync_defs)
  have h4: "sync_ranges ex_sync_env (fst (snd (syncUsers ex_sync_env ex_agent)))"
    by (simp add: ex_sync_defs) auto
  from syncUsers_idempotent [OF h1 h2 h3 h1 refl h4] h1 h2 h3 h4 show ?thesis
    by (simp add: list_all_iff)
qed

section \<open>Traffic report: the claim\<close>

lemmas ex_tick_defs = ex_tick_env_def ex_tick_agent_def ex_GetUserStats_def ex_GetOnlineIPs_def
  ex_clock_def ex_seen_def ex_user_def always_ok_def range_order_def

lemma collectTraffic_resets:
  "snd (collectTraffic env ks (t, r)) = r @ filter (hasTraffic env) ks"
  by (induction ks arbitrary: t r) (auto simp: hasTraffic_def split: sum.splits)

lemma collectTraffic_emails:
  "map UserEmail (fst (collectTraffic env ks (t, r))) = map UserEmail t @ filter (hasTraffic env) ks"
  by (induction ks arbitrary: t r) (auto simp: hasTraffic_def split: sum.splits)

lemma collectTraffic_values:
  "x \<in> set (fst (collectTraffic env ks (t, r))) \<Longrightarrow>
   x \<in> set t \<or>
   GetUserStats env (UserEmail x) =
     Inr \<lparr>UploadBytes = tr_UploadBytes x, DownloadBytes = tr_DownloadBytes x\<rparr>"
proof (induction ks arbitrary: t r)
  case Nil
  then show ?case by simp
next
  case (Cons k ks)
  from Cons.prems show ?case
    by (auto split: sum.splits if_splits dest!: Cons.IH)
qed

text \<open>
  C10. On a traffic tick, the emails in the report are exactly the provisioned users
  whose counter query succeeds with an upload or download counter strictly positive,
  each with the counters read; \<^verbatim>\<open>ResetUserStats\<close> is called for exactly these users,
  once each; and when there is no such user (in particular when no user is
  provisioned) no request is sent to the panel. Otherwise one request is sent and
  its result is the result of the tick.
\<close>

theorem reportTraffic_inclusion:
  assumes ro: "range_order (currentUsers a) (rangeUsers env)"
  shows "set (fst (snd (reportTraffic env a))) = {e \<in> dom (currentUsers a). hasTraffic env e} \<and>
         distinct (fst (snd (reportTraffic env a))) \<and>
         (if {e \<in> dom (currentUsers a). hasTraffic env e} = {}
          then snd (snd (reportTraffic env a)) = []
          else \<exists>req. snd (snd (reportTraffic env a)) = [req] \<and>
                 fst (reportTraffic env a) = ReportTraffic env req \<and>
                 map UserEmail (Traffic req) = fst (snd (reportTraffic env a)) \<and>
                 (\<forall>x \<in> set (Traffic req).
                    GetUserStats env (UserEmail x) =
                      Inr \<lparr>UploadBytes = tr_UploadBytes x, DownloadBytes = tr_DownloadBytes x\<rparr>))"
proof -
  define st where "st = collectTraffic env (rangeUsers env) ([], [])"
  define Q where "Q = {e \<in> dom (currentUsers a). hasTraffic env e}"
  from ro have d: "distinct (rangeUsers env)" and s: "set (rangeUsers env) = dom (currentUsers a)"
    by (simp_all add: range_order_def)
  have resets: "snd st = filter (hasTraffic env) (rangeUsers env)"
    by (simp add: st_def collectTraffic_resets)
  have emails: "map UserEmail (fst st) = filter (hasTraffic env) (rangeUsers env)"
    by (simp add: st_def collectTraffic_emails)
  have setr: "set (snd st) = Q"
    using s by (auto simp: resets Q_def)
  have disr: "distinct (snd st)"
    using d by (simp add: resets)
  have vals: "\<forall>x \<in> set (fst st).
      GetUserStats env (UserEmail x) = Inr \<lparr>UploadBytes = tr_UploadBytes x, DownloadBytes = tr_DownloadBytes x\<rparr>"
    using collectTraffic_values [of _ env "rangeUsers env" "[]" "[]"] by (auto simp: st_def)
  have empty_iff: "(fst st = []) = (Q = {})"
  proof -
    have "(fst st = []) = (map UserEmail (fst st) = [])" by simp
    also have "\<dots> = (snd st = [])" by (simp only: emails resets)
    also have "\<dots> = (Q = {})" using setr by auto
    finally show ?thesis .
  qed
  show ?thesis
  proof (cases "dom (currentUsers a) = {}")
    case True
    then show ?thesis by (simp add: reportTraffic_def)
  next
    case False
    show ?thesis
    proof (cases "Q = {}")
      case True
      with empty_iff have "fst st = []" by simp
      with False True setr disr show ?thesis
        by (simp add: reportTraffic_def st_def [symmetric] Q_def [symmetric])
    next
      case nonempty: False
      with empty_iff have "fst st \<noteq> []" by simp
      with False nonempty setr disr vals emails resets show ?thesis
        by (simp add: reportTraffic_def st_def [symmetric] Q_def [symmetric] Let_def)
    qed
  qed
qed

theorem reportTraffic_inclusion_witness:
  "range_order (currentUsers ex_tick_agent) (rangeUsers ex_tick_env) \<and>
   fst (snd (reportTraffic ex_tick_env ex_tick_agent)) = [''alice''] \<and>
   {e \<in> dom (currentUsers ex_tick_agent). hasTraffic ex_tick_env e} = {''alice''}"
proof -
  have h1: "range_order (currentUsers ex_tick_agent) (rangeUsers ex_tick_env)"
    by (simp add: ex_tick_defs) auto
  have r: "fst (snd (reportTraffic ex_tick_env ex_tick_agent)) = [''alice'']"
    by (simp add: reportTraffic_def Let_def ex_tick_defs word_sless_alt)
  from reportTraffic_inclusion [OF h1] h1 r show ?thesis
    by simp
qed

section \<open>Activity tracking: the claims\<close>

lemma delta_positive:
  fixes a b :: int64
  assumes "b <s a" and "sint a - sint b < 2 ^ 63"
  shows "0 <s a - b"
proof -
  have "sint (a - b) = signed_take_bit 63 (sint a - sint b)"
    by (simp add: sint_word_ariths)
  also have "\<dots> = sint a - sint b"
    using assms by (intro signed_take_bit_int_eq_self) (simp_all add: word_sless_alt)
  finally show ?thesis
    using assms by (simp add: word_sless_alt)
qed

lemma nonneg_no_overflow:
  fixes a b :: int64
  assumes "0 \<le>s a" and "0 \<le>s b"
  shows "sint a - sint b < 2 ^ 63"
proof -
  have "sint a < 2 ^ 63" using sint_lt [of a] by simp
  with assms show ?thesis by (simp add: word_sle_eq)
qed

lemma trackLoop_cache:
  "distinct ks \<Longrightarrow>
   snd (trackLoop env ks (act, cache)) e =
     (if e \<in> set ks then
        (case GetUserStats env e of
           Inl err \<Rightarrow> cache e
         | Inr stats \<Rightarrow> Some (observe (timeNow env) e stats (cache e)))
      else cache e)"
proof (induction ks arbitrary: act cache)
  case Nil
  then show ?case by simp
next
  case (Cons k ks)
  from Cons.prems have nk: "k \<notin> set ks" and d: "distinct ks" by simp_all
  show ?case
  proof (cases "GetUserStats env k")
    case (Inl err)
    with nk Cons.IH [OF d] show ?thesis by auto
  next
    case (Inr stats)
    show ?thesis
    proof (cases "e = k")
      case True
      with nk Inr Cons.IH [OF d] show ?thesis by (simp add: Let_def split: sum.splits)
    next
      case False
      with Inr Cons.IH [OF d] show ?thesis by (simp add: Let_def split: sum.splits)
    qed
  qed
qed

lemma trackLoop_dom: "dom cache \<subseteq> dom (snd (trackLoop env ks (act, cache)))"
proof (induction ks arbitrary: act cache)
  case Nil
  then show ?case by simp
next
  case (Cons k ks)
  show ?case
  proof (cases "GetUserStats env k")
    case (Inl err)
    with Cons.IH show ?thesis by simp
  next
    case (Inr stats)
    define st where "st = observe (timeNow env) k stats (cache k)"
    have step: "dom (cache(k \<mapsto> st)) \<subseteq> dom (snd (trackLoop env ks (act', cache(k \<mapsto> st))))" for act'
      by (rule Cons.IH)
    have "dom cache \<subseteq> dom (cache(k \<mapsto> st))" by auto
    with step have "dom cache \<subseteq> dom (snd (trackLoop env ks (act', cache(k \<mapsto> st))))" for act'
      by blast
    then show ?thesis using Inr by (simp add: Let_def st_def [symmetric])
  qed
qed

lemma trackActivity_cache:
  assumes ro: "range_order (currentUsers a) (rangeUsers env)" and x: "currentUsers a x \<noteq> None"
  shows "activityCache (snd (trackActivity env a)) x =
           (case GetUserStats env x of
              Inl err \<Rightarrow> activityCache a x
            | Inr stats \<Rightarrow> Some (observe (timeNow env) x stats (activityCache a x)))"
proof -
  from ro x have d: "distinct (rangeUsers env)" and m: "x \<in> set (rangeUsers env)"
    and ne: "dom (currentUsers a) \<noteq> {}"
    by (auto simp: range_order_def)
  from ne m trackLoop_cache [OF d, of env Map.empty "activityCache a" x] show ?thesis
    by (simp add: trackActivity_def Let_def)
qed

lemma trackActivity_delta_no_overflow:
  assumes ro: "range_order (currentUsers a) (rangeUsers env)"
    and x: "currentUsers a x \<noteq> None"
    and sample: "GetUserStats env x = Inr stats"
  shows "case activityCache a x of
           None \<Rightarrow>
             activityCache (snd (trackActivity env a)) x =
               Some \<lparr>as_Email = x, LastSeen = 0, LastUplink = UploadBytes stats,
                     LastDownlink = DownloadBytes stats, IsActive = False\<rparr>
         | Some st \<Rightarrow>
             (UploadBytes stats = LastUplink st \<and> DownloadBytes stats = LastDownlink st \<longrightarrow>
                activityCache (snd (trackActivity env a)) x = Some (st\<lparr>IsActive := False\<rparr>)) \<and>
             (LastUplink st <s UploadBytes stats \<and>
                sint (UploadBytes stats) - sint (LastUplink st) < 2 ^ 63 \<or>
              LastDownlink st <s DownloadBytes stats \<and>
                sint (DownloadBytes stats) - sint (LastDownlink st) < 2 ^ 63 \<longrightarrow>
                activityCache (snd (trackActivity env a)) x =
                  Some (st\<lparr>IsActive := True, LastSeen := timeNow env,
                           LastUplink := UploadBytes stats, LastDownlink := DownloadBytes stats\<rparr>)) \<and>
             (\<exists>st'. activityCache (snd (trackActivity env a)) x = Some st' \<and>
                LastUplink st' = UploadBytes stats \<and> LastDownlink st' = DownloadBytes stats)"
proof -
  have c: "activityCache (snd (trackActivity env a)) x =
             Some (observe (timeNow env) x stats (activityCache a x))"
    using trackActivity_cache [OF ro x] sample by simp
  show ?thesis
  proof (cases "activityCache a x")
    case None
    then show ?thesis by (simp add: c observe_def Let_def)
  next
    case (Some st)
    have eq: "UploadBytes stats = LastUplink st \<and> DownloadBytes stats = LastDownlink st \<longrightarrow>
                observe (timeNow env) x stats (Some st) = st\<lparr>IsActive := False\<rparr>"
      by (simp add: observe_def Let_def)
    have gt: "LastUplink st <s UploadBytes stats \<and>
                sint (UploadBytes stats) - sint (LastUplink st) < 2 ^ 63 \<or>
              LastDownlink st <s DownloadBytes stats \<and>
                sint (DownloadBytes stats) - sint (LastDownlink st) < 2 ^ 63 \<longrightarrow>
              observe (timeNow env) x stats (Some st) =
                st\<lparr>IsActive := True, LastSeen := timeNow env,
                   LastUplink := UploadBytes stats, LastDownlink := DownloadBytes stats\<rparr>"
      using delta_positive [of "LastUplink st" "UploadBytes stats"]
        delta_positive [of "LastDownlink st" "DownloadBytes stats"]
      by (auto simp: observe_def Let_def)
    have base: "LastUplink (observe (timeNow env) x stats (Some st)) = UploadBytes stats \<and>
                LastDownlink (observe (timeNow env) x stats (Some st)) = DownloadBytes stats"
      by (simp add: observe_def Let_def)
    from eq gt base show ?thesis by (simp add: Some c)
  qed
qed

text \<open>
  C5. Activity delta semantics. The counters are the cumulative byte counts the
  engine reports, so the counters read and a baseline stored from an earlier read
  are not negative. For a provisioned user whose counters are read successfully in
  a tick: when the cache has an entry for the user and the counters read equal its
  baseline, the entry becomes not active and its \<^verbatim>\<open>LastSeen\<close> is unchanged; when one of
  the counters read is strictly greater than its baseline, the entry becomes active
  with \<^verbatim>\<open>LastSeen\<close> the time of the tick; when the cache has no entry, the tick creates
  one with the counters read as baseline, not active; and in every case the baseline
  stored is the counters read.
\<close>

theorem trackActivity_delta:
  assumes ro: "range_order (currentUsers a) (rangeUsers env)"
    and x: "currentUsers a x \<noteq> None"
    and sample: "GetUserStats env x = Inr stats"
    and read_nonneg: "0 \<le>s UploadBytes stats \<and> 0 \<le>s DownloadBytes stats"
    and base_nonneg:
      "\<forall>st. activityCache a x = Some st \<longrightarrow> 0 \<le>s LastUplink st \<and> 0 \<le>s LastDownlink st"
  shows "case activityCache a x of
           None \<Rightarrow>
             activityCache (snd (trackActivity env a)) x =
               Some \<lparr>as_Email = x, LastSeen = 0, LastUplink = UploadBytes stats,
                     LastDownlink = DownloadBytes stats, IsActive = False\<rparr>
         | Some st \<Rightarrow>
             (UploadBytes stats = LastUplink st \<and> DownloadBytes stats = LastDownlink st \<longrightarrow>
                activityCache (snd (trackActivity env a)) x = Some (st\<lparr>IsActive := False\<rparr>)) \<and>
             (LastUplink st <s UploadBytes stats \<or> LastDownlink st <s DownloadBytes stats \<longrightarrow>
                activityCache (snd (trackActivity env a)) x =
                  Some (st\<lparr>IsActive := True, LastSeen := timeNow env,
                           LastUplink := UploadBytes stats, LastDownlink := DownloadBytes stats\<rparr>)) \<and>
             (\<exists>st'. activityCache (snd (trackActivity env a)) x = Some st' \<and>
                LastUplink st' = UploadBytes stats \<and> LastDownlink st' = DownloadBytes stats)"
proof (cases "activityCache a x")
  case None
  with trackActivity_delta_no_overflow [OF ro x sample] show ?thesis by simp
next
  case (Some st)
  from base_nonneg Some have b: "0 \<le>s LastUplink st" "0 \<le>s LastDownlink st" by simp_all
  from read_nonneg have r: "0 \<le>s UploadBytes stats" "0 \<le>s DownloadBytes stats" by simp_all
  have up: "sint (UploadBytes stats) - sint (LastUplink st) < 2 ^ 63"
    using r(1) b(1) by (rule nonneg_no_overflow)
  have down: "sint (DownloadBytes stats) - sint (LastDownlink st) < 2 ^ 63"
    using r(2) b(2) by (rule nonneg_no_overflow)
  from trackActivity_delta_no_overflow [OF ro x sample] Some up down show ?thesis
    by simp
qed

theorem trackActivity_delta_witness:
  "range_order (currentUsers ex_tick_agent) (rangeUsers ex_tick_env) \<and>
   currentUsers ex_tick_agent ''alice'' \<noteq> None \<and>
   GetUserStats ex_tick_env ''alice'' = Inr \<lparr>UploadBytes = 150, DownloadBytes = 50\<rparr> \<and>
   activityCache ex_tick_agent ''alice'' = Some (ex_seen ''alice'' 100 50) \<and>
   activityCache (snd (trackActivity ex_tick_env ex_tick_agent)) ''alice'' =
     Some \<lparr>as_Email = ''alice'', LastSeen = 1000 * Second, LastUplink = 150, LastDownlink = 50,
           IsActive = True\<rparr>"
proof -
  have h1: "range_order (currentUsers ex_tick_agent) (rangeUsers ex_tick_env)"
    by (simp add: ex_tick_defs) auto
  have h2: "currentUsers ex_tick_agent ''alice'' \<noteq> None"
    by (simp add: ex_tick_defs)
  have h3: "GetUserStats ex_tick_env ''alice'' = Inr \<lparr>UploadBytes = 150, DownloadBytes = 50\<rparr>"
    by (simp add: ex_tick_defs)
  have h4: "activityCache ex_tick_agent ''alice'' = Some (ex_seen ''alice'' 100 50)"
    by (simp add: ex_tick_defs)
  have h5: "0 \<le>s UploadBytes \<lparr>UploadBytes = 150, DownloadBytes = 50\<rparr> \<and>
            0 \<le>s DownloadBytes \<lparr>UploadBytes = 150, DownloadBytes = 50\<rparr>"
    by (simp add: word_sle_eq)
  have h6: "\<forall>st. activityCache ex_tick_agent ''alice'' = Some st \<longrightarrow>
              0 \<le>s LastUplink st \<and> 0 \<le>s LastDownlink st"
    by (simp add: h4 ex_seen_def word_sle_eq)
  have lt: "(100 :: int64) <s 150" by (simp add: word_sless_alt)
  from trackActivity_delta [OF h1 h2 h3 h5 h6] h1 h2 h3 h4 lt show ?thesis
    by (simp add: ex_seen_def ex_tick_env_def)
qed

lemma Sub_threshold: "(Sub t u < 2 * Minute) = (t - u < 120 * Second)"
  by (simp add: Sub_def maxDuration_def minDuration_def Minute_def Second_def)

lemma activityEntry_Some:
  "activityEntry env key st = Some r \<Longrightarrow>
   ar_Email r = as_Email st \<and> ar_LastSeen r = LastSeen st \<and>
   IsOnline r = (IsActive st \<or> clockAt env key - LastSeen st < 120 * Second)"
  by (auto simp: activityEntry_def Let_def Sub_threshold split: if_splits sum.splits)

lemma activityEntry_seen:
  "LastSeen st \<noteq> 0 \<Longrightarrow> \<exists>r. activityEntry env key st = Some r"
  by (auto simp: activityEntry_def Let_def IsZero_def split: sum.splits)

lemma buildActivities_set:
  "set (buildActivities env cache ks acc) =
     set acc \<union> {r. \<exists>key st. key \<in> set ks \<and> cache key = Some st \<and> activityEntry env key st = Some r}"
proof (induction ks arbitrary: acc)
  case Nil
  then show ?case by simp
next
  case (Cons k ks)
  show ?case
  proof (cases "cache k")
    case None
    with Cons.IH [of acc] show ?thesis by auto
  next
    case (Some st)
    note ck = this
    show ?thesis
    proof (cases "activityEntry env k st")
      case None
      with ck Cons.IH [of acc] show ?thesis by auto
    next
      case (Some r)
      with ck Cons.IH [of "acc @ [r]"] show ?thesis by auto
    qed
  qed
qed

lemma reportActivity_requests:
  "snd (snd (reportActivity env a)) =
     (let acts = buildActivities env (activityCache (fst (snd (reportActivity env a)))) (rangeCache env) []
      in if acts = [] then []
         else [\<lparr>ar_NodeID = cfg_Node_ID (fst (snd (reportActivity env a))), Users = acts,
                 ar_Timestamp = timeStamp env\<rparr>])"
  by (simp add: reportActivity_def Let_def)

text \<open>
  C6. In the activity report, every entry is built from an entry of the cache, and
  it is online exactly when that entry is active in this tick or the time since its
  \<^verbatim>\<open>LastSeen\<close> is strictly below 120 seconds. Every entry of the cache that has been
  seen is in the report: one that is not active and was last seen 90 seconds ago is
  reported online, one that is not active and was last seen 150 seconds ago is
  reported offline.
\<close>

theorem reportActivity_online_threshold:
  assumes ro: "range_order (activityCache (fst (snd (reportActivity env a)))) (rangeCache env)"
  shows "(\<forall>req \<in> set (snd (snd (reportActivity env a))). \<forall>r \<in> set (Users req).
            \<exists>key st. activityCache (fst (snd (reportActivity env a))) key = Some st \<and>
              ar_Email r = as_Email st \<and> ar_LastSeen r = LastSeen st \<and>
              IsOnline r = (IsActive st \<or> clockAt env key - LastSeen st < 120 * Second)) \<and>
         (\<forall>key st. activityCache (fst (snd (reportActivity env a))) key = Some st \<and> LastSeen st \<noteq> 0 \<longrightarrow>
            (\<exists>req r. snd (snd (reportActivity env a)) = [req] \<and> r \<in> set (Users req) \<and>
               activityEntry env key st = Some r \<and> ar_Email r = as_Email st \<and>
               IsOnline r = (IsActive st \<or> clockAt env key - LastSeen st < 120 * Second) \<and>
               (\<not> IsActive st \<and> clockAt env key - LastSeen st = 90 * Second \<longrightarrow> IsOnline r) \<and>
               (\<not> IsActive st \<and> clockAt env key - LastSeen st = 150 * Second \<longrightarrow> \<not> IsOnline r)))"
proof -
  define a' where "a' = fst (snd (reportActivity env a))"
  define acts where "acts = buildActivities env (activityCache a') (rangeCache env) []"
  have reqs: "snd (snd (reportActivity env a)) =
      (if acts = [] then [] else [\<lparr>ar_NodeID = cfg_Node_ID a', Users = acts, ar_Timestamp = timeStamp env\<rparr>])"
    using reportActivity_requests [of env a] by (simp add: a'_def acts_def Let_def)
  have mem: "set acts = {r. \<exists>key st. key \<in> set (rangeCache env) \<and> activityCache a' key = Some st \<and>
                              activityEntry env key st = Some r}"
    by (simp add: acts_def buildActivities_set)
  have sound: "\<forall>req \<in> set (snd (snd (reportActivity env a))). \<forall>r \<in> set (Users req).
            \<exists>key st. activityCache a' key = Some st \<and>
              ar_Email r = as_Email st \<and> ar_LastSeen r = LastSeen st \<and>
              IsOnline r = (IsActive st \<or> clockAt env key - LastSeen st < 120 * Second)"
  proof (intro ballI)
    fix req r
    assume "req \<in> set (snd (snd (reportActivity env a)))" and r: "r \<in> set (Users req)"
    then have "Users req = acts" by (auto simp: reqs split: if_splits)
    with r mem obtain key st where k: "activityCache a' key = Some st" "activityEntry env key st = Some r"
      by auto
    from activityEntry_Some [OF k(2)] k(1)
    show "\<exists>key st. activityCache a' key = Some st \<and>
              ar_Email r = as_Email st \<and> ar_LastSeen r = LastSeen st \<and>
              IsOnline r = (IsActive st \<or> clockAt env key - LastSeen st < 120 * Second)"
      by blast
  qed
  have complete: "\<exists>req r. snd (snd (reportActivity env a)) = [req] \<and> r \<in> set (Users req) \<and>
               activityEntry env key st = Some r \<and> ar_Email r = as_Email st \<and>
               IsOnline r = (IsActive st \<or> clockAt env key - LastSeen st < 120 * Second) \<and>
               (\<not> IsActive st \<and> clockAt env key - LastSeen st = 90 * Second \<longrightarrow> IsOnline r) \<and>
               (\<not> IsActive st \<and> clockAt env key - LastSeen st = 150 * Second \<longrightarrow> \<not> IsOnline r)"
    if c: "activityCache a' key = Some st" and seen: "LastSeen st \<noteq> 0" for key st
  proof -
    from activityEntry_seen [OF seen] obtain r where e: "activityEntry env key st = Some r" by blast
    from ro c have "key \<in> set (rangeCache env)"
      by (auto simp: range_order_def a'_def)
    with c e mem have r: "r \<in> set acts" by auto
    then have ne: "acts \<noteq> []" by auto
    from activityEntry_Some [OF e]
    have p: "ar_Email r = as_Email st" "IsOnline r = (IsActive st \<or> clockAt env key - LastSeen st < 120 * Second)"
      by simp_all
    have "\<not> IsActive st \<and> clockAt env key - LastSeen st = 90 * Second \<longrightarrow> IsOnline r"
      using p(2) by (simp add: Second_def)
    moreover have "\<not> IsActive st \<and> clockAt env key - LastSeen st = 150 * Second \<longrightarrow> \<not> IsOnline r"
      using p(2) by (simp add: Second_def)
    ultimately show ?thesis
      using ne r e p by (simp add: reqs)
  qed
  from sound complete show ?thesis
    unfolding a'_def by blast
qed

lemma ex_tick_cache:
  "activityCache (fst (snd (reportActivity ex_tick_env ex_tick_agent))) =
     [''alice'' \<mapsto> \<lparr>as_Email = ''alice'', LastSeen = 1000 * Second, LastUplink = 150,
                     LastDownlink = 50, IsActive = True\<rparr>,
      ''dave'' \<mapsto> ex_seen ''dave'' 7 7,
      ''bob'' \<mapsto> \<lparr>as_Email = ''bob'', LastSeen = 0, LastUplink = 0, LastDownlink = 0,
                   IsActive = False\<rparr>]"
  by (rule ext)
    (simp add: reportActivity_def trackActivity_def observe_def Let_def ex_tick_defs
      word_sless_alt)

theorem reportActivity_online_threshold_witness:
  "range_order (activityCache (fst (snd (reportActivity ex_tick_env ex_tick_agent))))
     (rangeCache ex_tick_env) \<and>
   activityCache (fst (snd (reportActivity ex_tick_env ex_tick_agent))) ''dave'' =
     Some (ex_seen ''dave'' 7 7) \<and>
   clockAt ex_tick_env ''dave'' - LastSeen (ex_seen ''dave'' 7 7) = 90 * Second \<and>
   (\<exists>req r. snd (snd (reportActivity ex_tick_env ex_tick_agent)) = [req] \<and>
      r \<in> set (Users req) \<and> ar_Email r = ''dave'' \<and> IsOnline r)"
proof -
  have h1: "range_order (activityCache (fst (snd (reportActivity ex_tick_env ex_tick_agent))))
     (rangeCache ex_tick_env)"
    by (simp add: ex_tick_cache) (auto simp: range_order_def ex_tick_env_def)
  have h2: "activityCache (fst (snd (reportActivity ex_tick_env ex_tick_agent))) ''dave'' =
     Some (ex_seen ''dave'' 7 7)"
    by (simp add: ex_tick_cache)
  have h3: "clockAt ex_tick_env ''dave'' - LastSeen (ex_seen ''dave'' 7 7) = 90 * Second"
    by (simp add: ex_tick_env_def ex_clock_def ex_seen_def Second_def)
  have h4: "LastSeen (ex_seen ''dave'' 7 7) \<noteq> 0" "\<not> IsActive (ex_seen ''dave'' 7 7)"
    "as_Email (ex_seen ''dave'' 7 7) = ''dave''"
    by (simp_all add: ex_seen_def Second_def)
  from reportActivity_online_threshold [OF h1] h2 h3 h4
  have "\<exists>req r. snd (snd (reportActivity ex_tick_env ex_tick_agent)) = [req] \<and>
      r \<in> set (Users req) \<and> ar_Email r = ''dave'' \<and> IsOnline r"
    by metis
  with h1 h2 h3 show ?thesis by blast
qed

lemma trackActivity_cache_grows:
  "dom (activityCache a) \<subseteq> dom (activityCache (snd (trackActivity env a)))"
  using trackLoop_dom [of "activityCache a" env "rangeUsers env" Map.empty]
  by (simp add: trackActivity_def Let_def)

lemma reportActivity_cache_grows:
  "dom (activityCache a) \<subseteq> dom (activityCache (fst (snd (reportActivity env a))))"
  using trackActivity_cache_grows [of a env]
  by (simp add: reportActivity_def Let_def)

text \<open>
  C4. \<^verbatim>\<open>cleanupActivityCache\<close> would drop the entries of the cache whose user has left
  \<^verbatim>\<open>currentUsers\<close> (\<open>cleanupActivityCache_subset\<close>), but \<^verbatim>\<open>reportActivity\<close> does not
  call it, and a tick removes no entry of the cache (\<open>reportActivity_cache_grows\<close>):
  after a tick on an agent whose cache holds an entry for a user that is not
  provisioned, the entry is still in the cache.
\<close>

theorem reportActivity_keeps_stale_record:
  "currentUsers ex_tick_agent ''dave'' = None \<and>
   currentUsers (fst (snd (reportActivity ex_tick_env ex_tick_agent))) ''dave'' = None \<and>
   activityCache (fst (snd (reportActivity ex_tick_env ex_tick_agent))) ''dave'' =
     Some (ex_seen ''dave'' 7 7)"
  by (simp add: ex_tick_cache)
    (simp add: reportActivity_def trackActivity_def Let_def ex_tick_agent_def)

lemma cleanupLoop_lookup:
  "cleanupLoop users ks cache e = (if users e = None \<and> e \<in> set ks then None else cache e)"
  by (induction ks arbitrary: cache) auto

lemma cleanupActivityCache_subset:
  "range_order (activityCache a) ks \<Longrightarrow>
   dom (activityCache (cleanupActivityCache ks a)) \<subseteq> dom (currentUsers a)"
  by (auto simp: cleanupActivityCache_def cleanupLoop_lookup range_order_def split: if_splits)

section \<open>The Reality keypair: the claim\<close>

lemma length_array32: "length (array32 bs) = 32"
  by (simp add: array32_def)

lemma array32_id: "length bs = 32 \<Longrightarrow> array32 bs = bs"
  by (simp add: array32_def)

lemma length_clamp: "length (clamp bs) = length bs"
  by (simp add: clamp_def Let_def)

lemma generateAndSaveKeys_new:
  assumes "generateAndSaveKeys lib os rnd path w = ((Some k, isNew, None), w')"
  shows "\<exists>bs. rnd = Inr bs \<and>
           k = \<lparr>PrivateKey = EncodeToString lib (clamp (array32 bs)),
                PublicKey = EncodeToString lib (ScalarBaseMult lib (clamp (array32 bs)))\<rparr> \<and>
           WriteFile os path (PrivateKey k) w = (None, w')"
  using assms
  by (auto simp: generateAndSaveKeys_def GenerateRealityKeypair_def Let_def
      split: sum.splits prod.splits option.splits)

lemma LoadOrCreateRealityKeys_new:
  assumes "LoadOrCreateRealityKeys lib os rnd path w = ((Some k, True, None), w')"
  shows "\<exists>w1. generateAndSaveKeys lib os rnd path w1 = ((Some k, True, None), w')"
  using assms
  by (auto simp: LoadOrCreateRealityKeys_def Let_def
      split: sum.splits prod.splits option.splits if_splits)

text \<open>
  C7. Keypair round trip: let a first call of \<^verbatim>\<open>LoadOrCreateRealityKeys\<close> on a path
  generate and persist a keypair (it returns keys, \<^verbatim>\<open>isNew = true\<close> and no error).
  A second call on the disk the first call left, where the directory can still be
  made and the file is unmodified, returns \<^verbatim>\<open>isNew = false\<close>, no error, and the same
  public key (and the same private key). The libraries are assumed to do what they
  document: decoding the encoding of 32 bytes gives these bytes, and reading a file
  after a successful write gives what was written.
\<close>

theorem LoadOrCreateRealityKeys_round_trip:
  assumes codec: "\<forall>bs. length bs = 32 \<longrightarrow> DecodeString lib (EncodeToString lib bs) = Inr bs"
    and first: "LoadOrCreateRealityKeys lib os rnd1 path w0 = ((Some k1, True, None), w1)"
    and mkdir: "MkdirAll os (filepath_Dir lib path) w1 = (None, w2)"
    and kept: "ReadFile os path w2 = ReadFile os path w1"
    and raw: "\<forall>c w w'. WriteFile os path c w = (None, w') \<longrightarrow> ReadFile os path w' = Inr c"
  shows "\<exists>k2. LoadOrCreateRealityKeys lib os rnd2 path w1 = ((Some k2, False, None), w2) \<and>
           PublicKey k2 = PublicKey k1 \<and> PrivateKey k2 = PrivateKey k1"
proof -
  from LoadOrCreateRealityKeys_new [OF first] obtain w' where
    "generateAndSaveKeys lib os rnd1 path w' = ((Some k1, True, None), w1)" by blast
  from generateAndSaveKeys_new [OF this] obtain bs where
    k1: "k1 = \<lparr>PrivateKey = EncodeToString lib (clamp (array32 bs)),
               PublicKey = EncodeToString lib (ScalarBaseMult lib (clamp (array32 bs)))\<rparr>"
    and wr: "WriteFile os path (PrivateKey k1) w' = (None, w1)"
    by blast
  define priv where "priv = clamp (array32 bs)"
  have len: "length priv = 32"
    by (simp add: priv_def length_clamp length_array32)
  from raw wr have "ReadFile os path w1 = Inr (PrivateKey k1)" by blast
  with kept have rd: "ReadFile os path w2 = Inr (EncodeToString lib priv)"
    by (simp add: k1 priv_def)
  from codec len have dec: "DecodeString lib (EncodeToString lib priv) = Inr priv" by blast
  have "LoadOrCreateRealityKeys lib os rnd2 path w1 =
          ((Some \<lparr>PrivateKey = EncodeToString lib priv,
                  PublicKey = EncodeToString lib (ScalarBaseMult lib priv)\<rparr>, False, None), w2)"
    by (simp add: LoadOrCreateRealityKeys_def Let_def mkdir rd dec len array32_id)
  then show ?thesis
    by (simp add: k1 priv_def)
qed

lemma ex_codec: "ex_decode (ex_encode bs) = Inr bs"
proof -
  have "of_nat (of_char (char_of (unat b) :: char)) = b" for b :: byte
  proof -
    have "unat b < 256" using unsigned_less [of b, where ?'a = nat] by simp
    then show ?thesis by simp
  qed
  then show ?thesis
    by (simp add: ex_decode_def ex_encode_def comp_def)
qed

theorem LoadOrCreateRealityKeys_round_trip_witness:
  "(\<exists>k1 k2.
      LoadOrCreateRealityKeys ex_lib mem_os ex_random ''reality_private.key'' Map.empty =
        ((Some k1, True, None), [''reality_private.key'' \<mapsto> PrivateKey k1]) \<and>
      LoadOrCreateRealityKeys ex_lib mem_os (Inl (Error ''unused''))
          ''reality_private.key'' [''reality_private.key'' \<mapsto> PrivateKey k1] =
        ((Some k2, False, None), [''reality_private.key'' \<mapsto> PrivateKey k1]) \<and>
      PublicKey k2 = PublicKey k1)"
proof -
  define k1 where "k1 = \<lparr>PrivateKey = ex_encode (clamp (array32 (replicate 32 255))),
                         PublicKey = ex_encode (rev (clamp (array32 (replicate 32 255))))\<rparr>"
  define w1 where "w1 = [''reality_private.key'' \<mapsto> PrivateKey k1]"
  have codec: "\<forall>bs. length bs = 32 \<longrightarrow> DecodeString ex_lib (EncodeToString ex_lib bs) = Inr bs"
    by (simp add: ex_lib_def ex_codec)
  have first: "LoadOrCreateRealityKeys ex_lib mem_os ex_random ''reality_private.key'' Map.empty =
        ((Some k1, True, None), w1)"
    by (simp add: LoadOrCreateRealityKeys_def generateAndSaveKeys_def GenerateRealityKeypair_def
        Let_def ex_lib_def mem_os_def mem_MkdirAll_def mem_ReadFile_def mem_WriteFile_def
        ex_random_def ex_dir_def k1_def w1_def)
  have mkdir: "MkdirAll mem_os (filepath_Dir ex_lib ''reality_private.key'') w1 = (None, w1)"
    by (simp add: mem_os_def mem_MkdirAll_def)
  have kept: "ReadFile mem_os ''reality_private.key'' w1 = ReadFile mem_os ''reality_private.key'' w1"
    by simp
  have raw: "\<forall>c w w'. WriteFile mem_os ''reality_private.key'' c w = (None, w') \<longrightarrow>
               ReadFile mem_os ''reality_private.key'' w' = Inr c"
    by (auto simp: mem_os_def mem_WriteFile_def mem_ReadFile_def)
  from LoadOrCreateRealityKeys_round_trip [OF codec first mkdir kept raw, of "Inl (Error ''unused'')"]
    first
  show ?thesis unfolding w1_def by blast
qed

section \<open>Startup: the claims\<close>

lemma syncUsers_cfg: "cfg_Xray (fst (snd (syncUsers env a))) = cfg_Xray a"
  by (simp add: syncUsers_def Let_def split: sum.splits)

lemma initRealityKeys_cfg: "cfg_Xray (snd (initRealityKeys env a)) = cfg_Xray a"
  by (simp add: initRealityKeys_def Let_def split: prod.splits option.splits)

lemma startEngine_result:
  "fst (startEngine env a) = XrayStart env (cfg_Xray a) \<and>
   cfg_Xray (fst (snd (startEngine env a))) = cfg_Xray a \<and>
   EvXrayStart (cfg_Xray a) \<in> set (snd (snd (startEngine env a))) \<and>
   (\<forall>xc. EvXrayStart xc \<in> set (snd (snd (startEngine env a))) \<longrightarrow> xc = cfg_Xray a)"
  by (auto simp: startEngine_def Let_def syncUsers_cfg split: option.splits if_splits)

lemma Start_fallback:
  assumes down: "FetchNodeConfig env = Inl e"
  shows "cfg_Xray (fst (snd (Start env a))) = useLocalConfig (cfg_Xray a) \<and>
         Protocol (cfg_Xray (fst (snd (Start env a)))) = Protocol (cfg_Xray a) \<and>
         ListenPort (cfg_Xray (fst (snd (Start env a)))) = ListenPort (cfg_Xray a) \<and>
         EvXrayStart (cfg_Xray (fst (snd (Start env a)))) \<in> set (snd (snd (Start env a))) \<and>
         (\<forall>xc. EvXrayStart xc \<in> set (snd (snd (Start env a))) \<longrightarrow>
               xc = cfg_Xray (fst (snd (Start env a)))) \<and>
         fst (Start env a) = XrayStart env (cfg_Xray (fst (snd (Start env a))))"
proof -
  define a1 where "a1 = (snd (initRealityKeys env a))\<lparr>cfg_Xray := useLocalConfig (cfg_Xray a)\<rparr>"
  have s: "Start env a = startEngine env a1"
    by (simp add: Start_def down a1_def initRealityKeys_cfg Let_def)
  have c: "cfg_Xray a1 = useLocalConfig (cfg_Xray a)"
    by (simp add: a1_def)
  have p: "Protocol (useLocalConfig xc) = Protocol xc \<and> ListenPort (useLocalConfig xc) = ListenPort xc" for xc
    by (simp add: useLocalConfig_def)
  from startEngine_result [of env a1] show ?thesis
    unfolding s c using p by simp
qed

lemma Load_sets_no_protocol:
  "Load file = Inr cfg \<Longrightarrow> Protocol (Xray cfg) = '''' \<and> ListenPort (Xray cfg) = 0"
  by (auto simp: Load_def unmarshal_def Let_def split: sum.splits)

lemma Start_fallback_after_Load:
  assumes "Load file = Inr cfg" and "FetchNodeConfig env = Inl e"
  shows "Protocol (cfg_Xray (fst (snd (Start env (NewAgent cfg))))) = '''' \<and>
         ListenPort (cfg_Xray (fst (snd (Start env (NewAgent cfg))))) = 0"
proof -
  from Start_fallback [OF assms(2), of "NewAgent cfg"]
  have "Protocol (cfg_Xray (fst (snd (Start env (NewAgent cfg))))) = Protocol (cfg_Xray (NewAgent cfg))"
    and "ListenPort (cfg_Xray (fst (snd (Start env (NewAgent cfg))))) = ListenPort (cfg_Xray (NewAgent cfg))"
    by blast+
  moreover have "cfg_Xray (NewAgent cfg) = Xray cfg"
    by (simp add: NewAgent_def)
  ultimately show ?thesis
    using Load_sets_no_protocol [OF assms(1)] by simp
qed

text \<open>
  C3. Fallback to the local configuration file. The fields \<^verbatim>\<open>Protocol\<close> and
  \<^verbatim>\<open>ListenPort\<close> of \<^verbatim>\<open>XrayConfig\<close> are tagged \<^verbatim>\<open>yaml:"-"\<close> and \<^verbatim>\<open>Load\<close> does not set them, so
  whatever the file says they are the empty string and 0 when \<^verbatim>\<open>Start\<close> is called
  (\<open>Load_sets_no_protocol\<close>), and the fallback leaves them so
  (\<open>Start_fallback_after_Load\<close>). With the file of the documentation, which gives the
  protocol \<^verbatim>\<open>vless\<close> and the port 443, and the panel unreachable, startup succeeds when
  the engine starts, but the resolved protocol is the empty string and the resolved
  port is 0, not the values of the file.
\<close>

theorem Start_fallback_ignores_file:
  "y_xray_protocol doc_yaml = Some ''vless'' \<and> y_xray_listen_port doc_yaml = Some 443 \<and>
   Load (Inr doc_yaml) = Inr doc_config \<and>
   FetchNodeConfig ex_start_down = Inl (Error ''panel unreachable'') \<and>
   fst (Start ex_start_down (NewAgent doc_config)) = None \<and>
   Protocol (cfg_Xray (fst (snd (Start ex_start_down (NewAgent doc_config))))) = '''' \<and>
   ListenPort (cfg_Xray (fst (snd (Start ex_start_down (NewAgent doc_config))))) = 0"
proof -
  have l: "Load (Inr doc_yaml) = Inr doc_config"
    by (simp add: Load_def unmarshal_def doc_yaml_def doc_config_def Let_def Second_def Minute_def)
  have h: "FetchNodeConfig ex_start_down = Inl (Error ''panel unreachable'')"
    by (simp add: ex_start_down_def)
  have ok: "XrayStart ex_start_down xc = None" for xc
    by (simp add: ex_start_down_def always_ok_def)
  from Start_fallback [OF h, of "NewAgent doc_config"]
  have "fst (Start ex_start_down (NewAgent doc_config)) =
          XrayStart ex_start_down (cfg_Xray (fst (snd (Start ex_start_down (NewAgent doc_config)))))"
    by blast
  then have r: "fst (Start ex_start_down (NewAgent doc_config)) = None"
    by (simp only: ok)
  from l h r Start_fallback_after_Load [OF l h] show ?thesis
    by (simp add: doc_yaml_def)
qed

lemma usePanelConfig_reality:
  assumes "nc_RealityEnabled nc"
    and "nc_RealityDest nc = '''' \<or> nc_RealityServerNames nc = '''' \<or> nc_RealityShortIds nc = ''''"
  shows "fst (usePanelConfig keys nc xc) \<in>
           {Some errRealityDest, Some errRealityServerNames, Some errRealityShortIds} \<and>
         (nc_RealityDest nc = '''' \<longrightarrow> fst (usePanelConfig keys nc xc) = Some errRealityDest)"
  using assms by (auto simp: usePanelConfig_def Let_def)

text \<open>
  C8. When the node configuration fetched from the panel has Reality enabled and an
  empty destination, an empty list of server names or an empty list of short ids,
  \<^verbatim>\<open>Start\<close> returns the error that names the missing field (the one about the
  destination when the destination is empty) and returns it before the API client
  is made, the GeoData files are ensured or the engine is started: the engine is
  never started.
\<close>

theorem Start_reality_fields_required:
  assumes fetch: "FetchNodeConfig env = Inr nc"
    and reality: "nc_RealityEnabled nc"
    and missing: "nc_RealityDest nc = '''' \<or> nc_RealityServerNames nc = '''' \<or>
                  nc_RealityShortIds nc = ''''"
  shows "fst (Start env a) \<in>
           {Some errRealityDest, Some errRealityServerNames, Some errRealityShortIds} \<and>
         (nc_RealityDest nc = '''' \<longrightarrow> fst (Start env a) = Some errRealityDest) \<and>
         snd (snd (Start env a)) = [] \<and>
         (\<forall>xc. EvXrayStart xc \<notin> set (snd (snd (Start env a))))"
proof -
  define a1 where "a1 = snd (initRealityKeys env a)"
  obtain err xc where u: "usePanelConfig (realityKeys a1) nc (cfg_Xray a1) = (Some err, xc)"
    using usePanelConfig_reality [OF reality missing, of "realityKeys a1" "cfg_Xray a1"]
    by (cases "usePanelConfig (realityKeys a1) nc (cfg_Xray a1)") auto
  have s: "Start env a = (Some err, a1\<lparr>cfg_Xray := xc\<rparr>, [])"
    by (simp add: Start_def fetch a1_def [symmetric] u Let_def)
  from usePanelConfig_reality [OF reality missing, of "realityKeys a1" "cfg_Xray a1"] u
  show ?thesis by (simp add: s)
qed

theorem Start_reality_fields_required_witness:
  "FetchNodeConfig ex_start_reality = Inr ex_node_config \<and> nc_RealityEnabled ex_node_config \<and>
   nc_RealityDest ex_node_config = '''' \<and>
   fst (Start ex_start_reality ex_agent) = Some errRealityDest \<and>
   snd (snd (Start ex_start_reality ex_agent)) = []"
proof -
  have h1: "FetchNodeConfig ex_start_reality = Inr ex_node_config"
    by (simp add: ex_start_reality_def)
  have h2: "nc_RealityEnabled ex_node_config" and h3: "nc_RealityDest ex_node_config = ''''"
    by (simp_all add: ex_node_config_def)
  from h3 have h4: "nc_RealityDest ex_node_config = '''' \<or>
      nc_RealityServerNames ex_node_config = '''' \<or> nc_RealityShortIds ex_node_config = ''''"
    by simp
  from Start_reality_fields_required [OF h1 h2 h4, of ex_agent] h1 h2 h3 show ?thesis
    by simp
qed

end
